theory Spec2Isabelle
  imports Main "HOL-Library.Word"
begin

section \<open>Session orchestrator of the audio manager (audio_manager.c)\<close>

text \<open>
  The orchestrator keeps one static context \<open>s_ctx\<close> and talks to five collaborators
  (I2S HAL, ring buffer, playback controller, AFE wrapper, button handler) and to the
  application's callbacks. The model passes the context explicitly and records every
  call that leaves the file in a log, in the order the code makes it. What a collaborator
  returns is not decided in this file, so it is a parameter of every operation.
\<close>

subsection \<open>Pointers, status codes, sizes\<close>

text \<open>A pointer or opaque handle is an address; the null pointer is address 0.\<close>

type_synonym ptr = nat

definition NULL :: ptr where
  "NULL = 0"

text \<open>\<open>esp_err_t\<close> is an \<open>int\<close>; the four codes the file uses have the SDK's values.\<close>

type_synonym esp_err_t = int

definition ESP_OK :: esp_err_t where
  "ESP_OK = 0"

definition ESP_ERR_NO_MEM :: esp_err_t where
  "ESP_ERR_NO_MEM = 0x101"

definition ESP_ERR_INVALID_ARG :: esp_err_t where
  "ESP_ERR_INVALID_ARG = 0x102"

definition ESP_ERR_INVALID_STATE :: esp_err_t where
  "ESP_ERR_INVALID_STATE = 0x103"

type_synonym size_t = "32 word"

definition PLAYBACK_FRAME_SAMPLES :: nat where
  "PLAYBACK_FRAME_SAMPLES = 1024"

definition PLAYBACK_BUFFER_SIZE :: nat where
  "PLAYBACK_BUFFER_SIZE = 512 * 1024"

definition REFERENCE_BUFFER_SIZE :: nat where
  "REFERENCE_BUFFER_SIZE = 16 * 1024"

text \<open>\<open>sizeof(int16_t)\<close>.\<close>

definition sizeof_int16 :: nat where
  "sizeof_int16 = 2"

subsection \<open>Events\<close>

datatype button_event_type_t = BUTTON_EVENT_PRESS | BUTTON_EVENT_RELEASE

datatype afe_event_type_t =
  AFE_EVENT_WAKEUP_DETECTED | AFE_EVENT_VAD_START | AFE_EVENT_VAD_END

datatype audio_mgr_event_type_t =
  AUDIO_MGR_EVENT_BUTTON_TRIGGER
| AUDIO_MGR_EVENT_BUTTON_RELEASE
| AUDIO_MGR_EVENT_WAKEUP_DETECTED
| AUDIO_MGR_EVENT_VAD_START
| AUDIO_MGR_EVENT_VAD_END

text \<open>
  The event types are the enumerators the file names; the handlers are called with these
  only. The payload \<open>data.wakeup\<close> is the same in both event structs; its two fields are
  only ever copied, so their values are carried as integers.
\<close>

record wakeup_data =
  wake_word_index :: int
  volume_db :: int

record afe_event_t =
  afe_ev_type :: afe_event_type_t
  afe_ev_wakeup :: wakeup_data

record audio_mgr_event_t =
  mgr_ev_type :: audio_mgr_event_type_t
  mgr_ev_wakeup :: wakeup_data

text \<open>The zero-initialised payload of \<open>audio_mgr_event_t mgr_event = {0}\<close>.\<close>

definition wakeup_zero :: wakeup_data where
  "wakeup_zero = \<lparr>wake_word_index = 0, volume_db = 0\<rparr>"

subsection \<open>Configuration of the audio manager\<close>

text \<open>
  Field names are the source's, prefixed by the struct they belong to, since several
  structs share names such as \<open>port\<close> or \<open>enabled\<close>. A \<open>const char *\<close> is an optional
  string, \<open>None\<close> for the null pointer.
\<close>

record audio_mgr_mic_config =
  mic_port :: int
  mic_bclk_gpio :: int
  mic_lrck_gpio :: int
  mic_din_gpio :: int
  mic_sample_rate :: int
  mic_bits :: int

record audio_mgr_speaker_config =
  speaker_port :: int
  speaker_bclk_gpio :: int
  speaker_lrck_gpio :: int
  speaker_dout_gpio :: int
  speaker_sample_rate :: int
  speaker_bits :: int

record audio_mgr_button_config =
  button_gpio :: int
  button_active_low :: bool

record audio_mgr_hw_config =
  mic :: audio_mgr_mic_config
  speaker :: audio_mgr_speaker_config
  button :: audio_mgr_button_config

record audio_mgr_wakeup_config_t =
  wakeup_enabled :: bool
  wakeup_wake_word_name :: "string option"
  wakeup_model_partition :: "string option"
  wakeup_sensitivity :: int
  wakeup_timeout_ms :: int
  wakeup_end_delay_ms :: int

record audio_mgr_vad_config =
  vad_enabled :: bool
  vad_vad_mode :: int
  vad_min_speech_ms :: int
  vad_min_silence_ms :: int

record audio_mgr_afe_config =
  afe_aec_enabled :: bool
  afe_ns_enabled :: bool
  afe_agc_enabled :: bool
  afe_afe_mode :: int

record audio_mgr_config_t =
  hw_config :: audio_mgr_hw_config
  wakeup_config :: audio_mgr_wakeup_config_t
  vad_config :: audio_mgr_vad_config
  afe_config :: audio_mgr_afe_config
  event_callback :: ptr
  user_ctx :: ptr

subsection \<open>Configurations handed to the collaborators\<close>

text \<open>The three static handlers of the file, and the three context fields shared by address.\<close>

datatype handler_fn = Fn_button_event_handler | Fn_afe_event_handler | Fn_afe_record_handler

datatype shared_field = Addr_volume | Addr_running | Addr_recording

record i2s_mic_config_t =
  i2sm_port :: int
  i2sm_bclk_gpio :: int
  i2sm_lrck_gpio :: int
  i2sm_din_gpio :: int
  i2sm_sample_rate :: int
  i2sm_bits :: int
  i2sm_max_frame_samples :: nat
  i2sm_bit_shift :: nat

record i2s_speaker_config_t =
  i2ss_port :: int
  i2ss_bclk_gpio :: int
  i2ss_lrck_gpio :: int
  i2ss_dout_gpio :: int
  i2ss_sample_rate :: int
  i2ss_bits :: int
  i2ss_max_frame_samples :: nat

record playback_controller_config_t =
  pbc_i2s_hal :: ptr
  pbc_playback_buffer_samples :: nat
  pbc_reference_buffer_samples :: nat
  pbc_frame_samples :: nat
  pbc_reference_callback :: ptr
  pbc_reference_ctx :: ptr
  pbc_volume_ptr :: shared_field

record afe_wakeup_config_t =
  afew_enabled :: bool
  afew_wake_word_name :: "string option"
  afew_model_partition :: "string option"
  afew_sensitivity :: int

record afe_vad_config_t =
  afev_enabled :: bool
  afev_vad_mode :: int
  afev_min_speech_ms :: int
  afev_min_silence_ms :: int

record afe_feature_config_t =
  afef_aec_enabled :: bool
  afef_ns_enabled :: bool
  afef_agc_enabled :: bool
  afef_afe_mode :: int

record afe_wrapper_config_t =
  afec_i2s_hal :: ptr
  afec_reference_rb :: ptr
  afec_wakeup_config :: afe_wakeup_config_t
  afec_vad_config :: afe_vad_config_t
  afec_feature_config :: afe_feature_config_t
  afec_event_callback :: handler_fn
  afec_event_ctx :: ptr
  afec_record_callback :: handler_fn
  afec_record_ctx :: ptr
  afec_running_ptr :: shared_field
  afec_recording_ptr :: shared_field

record button_handler_config_t =
  btnc_gpio :: int
  btnc_active_low :: bool
  btnc_debounce_ms :: nat
  btnc_callback :: handler_fn
  btnc_user_ctx :: ptr

subsection \<open>The context and the log of outgoing calls\<close>

record audio_manager_ctx_t =
  config :: audio_mgr_config_t
  i2s_hal :: ptr
  playback_ctrl :: ptr
  button_handler :: ptr
  afe_wrapper :: ptr
  reference_rb :: ptr
  initialized :: bool
  running :: bool
  recording :: bool
  volume :: "8 word"
  record_callback :: ptr
  record_ctx :: ptr

text \<open>
  One constructor for each function of another module the file calls, with the
  arguments of the call; \<open>Call_event_callback f e u\<close> is the call \<open>f(&e, u)\<close> of the
  application's event callback and \<open>Call_record_callback f p n u\<close> the call \<open>f(p, n, u)\<close>
  of its record callback.
\<close>

datatype call =
  Call_i2s_hal_create i2s_mic_config_t i2s_speaker_config_t
| Call_i2s_hal_destroy ptr
| Call_ring_buffer_create nat bool
| Call_ring_buffer_destroy ptr
| Call_playback_controller_create playback_controller_config_t
| Call_playback_controller_destroy ptr
| Call_playback_controller_get_reference_buffer ptr
| Call_playback_controller_write ptr ptr size_t
| Call_playback_controller_get_free_space ptr
| Call_playback_controller_start ptr
| Call_playback_controller_stop ptr
| Call_playback_controller_clear ptr
| Call_playback_controller_is_running ptr
| Call_afe_wrapper_create afe_wrapper_config_t
| Call_afe_wrapper_destroy ptr
| Call_afe_wrapper_update_wakeup_config ptr afe_wakeup_config_t
| Call_button_handler_create button_handler_config_t
| Call_button_handler_destroy ptr
| Call_event_callback ptr audio_mgr_event_t ptr
| Call_record_callback ptr ptr size_t ptr

record sys =
  s_ctx :: audio_manager_ctx_t
  calls :: "call list"

text \<open>
  What the collaborators return. Each field is the function of the same name, from the
  arguments of the call to its result; the operations below take such a record as their
  first argument, and the theorems hold for every one.
\<close>

record collaborators =
  i2s_hal_create :: "i2s_mic_config_t \<Rightarrow> i2s_speaker_config_t \<Rightarrow> ptr"
  ring_buffer_create :: "nat \<Rightarrow> bool \<Rightarrow> ptr"
  playback_controller_create :: "playback_controller_config_t \<Rightarrow> ptr"
  playback_controller_get_reference_buffer :: "ptr \<Rightarrow> ptr"
  playback_controller_write :: "ptr \<Rightarrow> ptr \<Rightarrow> size_t \<Rightarrow> esp_err_t"
  playback_controller_get_free_space :: "ptr \<Rightarrow> size_t"
  playback_controller_start :: "ptr \<Rightarrow> esp_err_t"
  playback_controller_stop :: "ptr \<Rightarrow> esp_err_t"
  playback_controller_clear :: "ptr \<Rightarrow> esp_err_t"
  playback_controller_is_running :: "ptr \<Rightarrow> bool"
  afe_wrapper_create :: "afe_wrapper_config_t \<Rightarrow> ptr"
  afe_wrapper_update_wakeup_config :: "ptr \<Rightarrow> afe_wakeup_config_t \<Rightarrow> esp_err_t"
  button_handler_create :: "button_handler_config_t \<Rightarrow> ptr"

definition emit :: "call \<Rightarrow> sys \<Rightarrow> sys" where
  "emit c s = s\<lparr>calls := calls s @ [c]\<rparr>"

definition ctx_upd :: "(audio_manager_ctx_t \<Rightarrow> audio_manager_ctx_t) \<Rightarrow> sys \<Rightarrow> sys" where
  "ctx_upd f s = s\<lparr>s_ctx := f (s_ctx s)\<rparr>"

subsection \<open>The zeroed context\<close>

text \<open>\<open>static audio_manager_ctx_t s_ctx = {0}\<close>, and the result of \<open>memset(&s_ctx, 0, ...)\<close>.\<close>

definition config_zero :: audio_mgr_config_t where
  "config_zero =
     \<lparr>hw_config =
        \<lparr>mic = \<lparr>mic_port = 0, mic_bclk_gpio = 0, mic_lrck_gpio = 0, mic_din_gpio = 0,
                 mic_sample_rate = 0, mic_bits = 0\<rparr>,
         speaker = \<lparr>speaker_port = 0, speaker_bclk_gpio = 0, speaker_lrck_gpio = 0,
                     speaker_dout_gpio = 0, speaker_sample_rate = 0, speaker_bits = 0\<rparr>,
         button = \<lparr>button_gpio = 0, button_active_low = False\<rparr>\<rparr>,
      wakeup_config =
        \<lparr>wakeup_enabled = False, wakeup_wake_word_name = None, wakeup_model_partition = None,
         wakeup_sensitivity = 0, wakeup_timeout_ms = 0, wakeup_end_delay_ms = 0\<rparr>,
      vad_config =
        \<lparr>vad_enabled = False, vad_vad_mode = 0, vad_min_speech_ms = 0, vad_min_silence_ms = 0\<rparr>,
      afe_config =
        \<lparr>afe_aec_enabled = False, afe_ns_enabled = False, afe_agc_enabled = False,
         afe_afe_mode = 0\<rparr>,
      event_callback = NULL,
      user_ctx = NULL\<rparr>"

definition ctx_zero :: audio_manager_ctx_t where
  "ctx_zero =
     \<lparr>config = config_zero, i2s_hal = NULL, playback_ctrl = NULL, button_handler = NULL,
      afe_wrapper = NULL, reference_rb = NULL, initialized = False, running = False,
      recording = False, volume = 0, record_callback = NULL, record_ctx = NULL\<rparr>"

text \<open>The state at program start: the zeroed context and no call made yet.\<close>

definition sys_boot :: sys where
  "sys_boot = \<lparr>s_ctx = ctx_zero, calls = []\<rparr>"

subsection \<open>Internal callbacks\<close>

text \<open>
  \<open>button_event_handler\<close>: without an event callback the event is dropped; otherwise the
  callback is called once with the translated event.
\<close>

definition button_event_handler :: "button_event_type_t \<Rightarrow> sys \<Rightarrow> sys" where
  "button_event_handler event s =
     (if event_callback (config (s_ctx s)) = NULL then s
      else
        let mgr_event =
              (case event of
                 BUTTON_EVENT_PRESS \<Rightarrow>
                   \<lparr>mgr_ev_type = AUDIO_MGR_EVENT_BUTTON_TRIGGER, mgr_ev_wakeup = wakeup_zero\<rparr>
               | BUTTON_EVENT_RELEASE \<Rightarrow>
                   \<lparr>mgr_ev_type = AUDIO_MGR_EVENT_BUTTON_RELEASE, mgr_ev_wakeup = wakeup_zero\<rparr>)
        in emit (Call_event_callback (event_callback (config (s_ctx s))) mgr_event
                   (user_ctx (config (s_ctx s)))) s)"

text \<open>\<open>afe_event_handler\<close>: the \<open>switch\<close> over the front end's event type.\<close>

definition afe_event_handler :: "afe_event_t \<Rightarrow> sys \<Rightarrow> sys" where
  "afe_event_handler event s =
     (if event_callback (config (s_ctx s)) = NULL then s
      else
        let mgr_event =
              (case afe_ev_type event of
                 AFE_EVENT_WAKEUP_DETECTED \<Rightarrow>
                   \<lparr>mgr_ev_type = AUDIO_MGR_EVENT_WAKEUP_DETECTED,
                    mgr_ev_wakeup =
                      \<lparr>wake_word_index = wake_word_index (afe_ev_wakeup event),
                       volume_db = volume_db (afe_ev_wakeup event)\<rparr>\<rparr>
               | AFE_EVENT_VAD_START \<Rightarrow>
                   \<lparr>mgr_ev_type = AUDIO_MGR_EVENT_VAD_START, mgr_ev_wakeup = wakeup_zero\<rparr>
               | AFE_EVENT_VAD_END \<Rightarrow>
                   \<lparr>mgr_ev_type = AUDIO_MGR_EVENT_VAD_END, mgr_ev_wakeup = wakeup_zero\<rparr>)
        in emit (Call_event_callback (event_callback (config (s_ctx s))) mgr_event
                   (user_ctx (config (s_ctx s)))) s)"

definition afe_record_handler :: "ptr \<Rightarrow> size_t \<Rightarrow> sys \<Rightarrow> sys" where
  "afe_record_handler pcm_data samples s =
     (if record_callback (s_ctx s) \<noteq> NULL
      then emit (Call_record_callback (record_callback (s_ctx s)) pcm_data samples
                   (record_ctx (s_ctx s))) s
      else s)"

subsection \<open>Initialisation\<close>

text \<open>The local configuration structs of \<open>audio_manager_init\<close>, in the order it builds them.\<close>

definition mic_cfg :: "audio_mgr_config_t \<Rightarrow> i2s_mic_config_t" where
  "mic_cfg cfg =
     \<lparr>i2sm_port = mic_port (mic (hw_config cfg)),
      i2sm_bclk_gpio = mic_bclk_gpio (mic (hw_config cfg)),
      i2sm_lrck_gpio = mic_lrck_gpio (mic (hw_config cfg)),
      i2sm_din_gpio = mic_din_gpio (mic (hw_config cfg)),
      i2sm_sample_rate = mic_sample_rate (mic (hw_config cfg)),
      i2sm_bits = mic_bits (mic (hw_config cfg)),
      i2sm_max_frame_samples = 512,
      i2sm_bit_shift = 14\<rparr>"

definition speaker_cfg :: "audio_mgr_config_t \<Rightarrow> i2s_speaker_config_t" where
  "speaker_cfg cfg =
     \<lparr>i2ss_port = speaker_port (speaker (hw_config cfg)),
      i2ss_bclk_gpio = speaker_bclk_gpio (speaker (hw_config cfg)),
      i2ss_lrck_gpio = speaker_lrck_gpio (speaker (hw_config cfg)),
      i2ss_dout_gpio = speaker_dout_gpio (speaker (hw_config cfg)),
      i2ss_sample_rate = speaker_sample_rate (speaker (hw_config cfg)),
      i2ss_bits = speaker_bits (speaker (hw_config cfg)),
      i2ss_max_frame_samples = PLAYBACK_FRAME_SAMPLES\<rparr>"

definition playback_cfg :: "ptr \<Rightarrow> playback_controller_config_t" where
  "playback_cfg hal =
     \<lparr>pbc_i2s_hal = hal,
      pbc_playback_buffer_samples = PLAYBACK_BUFFER_SIZE div sizeof_int16,
      pbc_reference_buffer_samples = REFERENCE_BUFFER_SIZE div sizeof_int16,
      pbc_frame_samples = PLAYBACK_FRAME_SAMPLES,
      pbc_reference_callback = NULL,
      pbc_reference_ctx = NULL,
      pbc_volume_ptr = Addr_volume\<rparr>"

definition afe_wakeup :: "audio_mgr_wakeup_config_t \<Rightarrow> afe_wakeup_config_t" where
  "afe_wakeup w =
     \<lparr>afew_enabled = wakeup_enabled w,
      afew_wake_word_name = wakeup_wake_word_name w,
      afew_model_partition = wakeup_model_partition w,
      afew_sensitivity = wakeup_sensitivity w\<rparr>"

definition afe_vad :: "audio_mgr_config_t \<Rightarrow> afe_vad_config_t" where
  "afe_vad cfg =
     \<lparr>afev_enabled = vad_enabled (vad_config cfg),
      afev_vad_mode = vad_vad_mode (vad_config cfg),
      afev_min_speech_ms = vad_min_speech_ms (vad_config cfg),
      afev_min_silence_ms = vad_min_silence_ms (vad_config cfg)\<rparr>"

definition afe_feature :: "audio_mgr_config_t \<Rightarrow> afe_feature_config_t" where
  "afe_feature cfg =
     \<lparr>afef_aec_enabled = afe_aec_enabled (afe_config cfg),
      afef_ns_enabled = afe_ns_enabled (afe_config cfg),
      afef_agc_enabled = afe_agc_enabled (afe_config cfg),
      afef_afe_mode = afe_afe_mode (afe_config cfg)\<rparr>"

definition afe_cfg :: "audio_mgr_config_t \<Rightarrow> ptr \<Rightarrow> ptr \<Rightarrow> afe_wrapper_config_t" where
  "afe_cfg cfg hal rb =
     \<lparr>afec_i2s_hal = hal,
      afec_reference_rb = rb,
      afec_wakeup_config = afe_wakeup (wakeup_config cfg),
      afec_vad_config = afe_vad cfg,
      afec_feature_config = afe_feature cfg,
      afec_event_callback = Fn_afe_event_handler,
      afec_event_ctx = NULL,
      afec_record_callback = Fn_afe_record_handler,
      afec_record_ctx = NULL,
      afec_running_ptr = Addr_running,
      afec_recording_ptr = Addr_recording\<rparr>"

definition button_cfg :: "audio_mgr_config_t \<Rightarrow> button_handler_config_t" where
  "button_cfg cfg =
     \<lparr>btnc_gpio = button_gpio (button (hw_config cfg)),
      btnc_active_low = button_active_low (button (hw_config cfg)),
      btnc_debounce_ms = 50,
      btnc_callback = Fn_button_event_handler,
      btnc_user_ctx = NULL\<rparr>"

text \<open>
  \<open>audio_manager_init\<close>. The argument is the \<open>config\<close> pointer: \<open>None\<close> for a null
  pointer, \<open>Some cfg\<close> for a pointer to \<open>cfg\<close>. Each \<open>let\<close> is one statement of the
  source: the call is logged, its result is stored in the context, and the test on the
  stored handle follows.
\<close>

definition audio_manager_init ::
    "collaborators \<Rightarrow> audio_mgr_config_t option \<Rightarrow> sys \<Rightarrow> esp_err_t \<times> sys" where
  "audio_manager_init env cfg_ptr s =
     (if initialized (s_ctx s) then (ESP_OK, s)
      else case cfg_ptr of
        None \<Rightarrow> (ESP_ERR_INVALID_ARG, s)
      | Some cfg \<Rightarrow>
        if event_callback cfg = NULL then (ESP_ERR_INVALID_ARG, s)
        else
          let s = ctx_upd (\<lambda>c. c\<lparr>config := cfg\<rparr>) s;
              s = ctx_upd (\<lambda>c. c\<lparr>volume := 80\<rparr>) s;
              s = emit (Call_i2s_hal_create (mic_cfg cfg) (speaker_cfg cfg)) s;
              s = ctx_upd (\<lambda>c. c\<lparr>i2s_hal := i2s_hal_create env (mic_cfg cfg) (speaker_cfg cfg)\<rparr>) s
          in
          if i2s_hal (s_ctx s) = NULL then (ESP_ERR_NO_MEM, s)
          else
          let s = emit (Call_ring_buffer_create (REFERENCE_BUFFER_SIZE div sizeof_int16) False) s;
              s = ctx_upd (\<lambda>c. c\<lparr>reference_rb :=
                    ring_buffer_create env (REFERENCE_BUFFER_SIZE div sizeof_int16) False\<rparr>) s
          in
          if reference_rb (s_ctx s) = NULL
          then (ESP_ERR_NO_MEM, emit (Call_i2s_hal_destroy (i2s_hal (s_ctx s))) s)
          else
          let pcfg = playback_cfg (i2s_hal (s_ctx s));
              s = emit (Call_playback_controller_create pcfg) s;
              s = ctx_upd (\<lambda>c. c\<lparr>playback_ctrl := playback_controller_create env pcfg\<rparr>) s
          in
          if playback_ctrl (s_ctx s) = NULL
          then
            (let s = emit (Call_ring_buffer_destroy (reference_rb (s_ctx s))) s;
                 s = emit (Call_i2s_hal_destroy (i2s_hal (s_ctx s))) s
             in (ESP_ERR_NO_MEM, s))
          else
          let s = emit (Call_playback_controller_get_reference_buffer (playback_ctrl (s_ctx s))) s;
              s = ctx_upd (\<lambda>c. c\<lparr>reference_rb :=
                    playback_controller_get_reference_buffer env (playback_ctrl c)\<rparr>) s;
              acfg = afe_cfg cfg (i2s_hal (s_ctx s)) (reference_rb (s_ctx s));
              s = emit (Call_afe_wrapper_create acfg) s;
              s = ctx_upd (\<lambda>c. c\<lparr>afe_wrapper := afe_wrapper_create env acfg\<rparr>) s
          in
          if afe_wrapper (s_ctx s) = NULL
          then
            (let s = emit (Call_playback_controller_destroy (playback_ctrl (s_ctx s))) s;
                 s = emit (Call_i2s_hal_destroy (i2s_hal (s_ctx s))) s
             in (ESP_ERR_NO_MEM, s))
          else
          let s = emit (Call_button_handler_create (button_cfg cfg)) s;
              s = ctx_upd (\<lambda>c. c\<lparr>button_handler := button_handler_create env (button_cfg cfg)\<rparr>) s
          in
          if button_handler (s_ctx s) = NULL
          then
            (let s = emit (Call_afe_wrapper_destroy (afe_wrapper (s_ctx s))) s;
                 s = emit (Call_playback_controller_destroy (playback_ctrl (s_ctx s))) s;
                 s = emit (Call_i2s_hal_destroy (i2s_hal (s_ctx s))) s
             in (ESP_ERR_NO_MEM, s))
          else (ESP_OK, ctx_upd (\<lambda>c. c\<lparr>initialized := True\<rparr>) s))"

subsection \<open>Listening, recording, playback\<close>

definition audio_manager_start :: "sys \<Rightarrow> esp_err_t \<times> sys" where
  "audio_manager_start s =
     (if \<not> initialized (s_ctx s) then (ESP_ERR_INVALID_STATE, s)
      else if running (s_ctx s) then (ESP_OK, s)
      else (ESP_OK, ctx_upd (\<lambda>c. c\<lparr>running := True\<rparr>) s))"

definition audio_manager_stop :: "sys \<Rightarrow> esp_err_t \<times> sys" where
  "audio_manager_stop s =
     (if \<not> running (s_ctx s) then (ESP_OK, s)
      else
        let s = ctx_upd (\<lambda>c. c\<lparr>running := False\<rparr>) s;
            s = ctx_upd (\<lambda>c. c\<lparr>recording := False\<rparr>) s
        in (ESP_OK, s))"

definition audio_manager_trigger_conversation :: "sys \<Rightarrow> esp_err_t \<times> sys" where
  "audio_manager_trigger_conversation s =
     (if \<not> initialized (s_ctx s) then (ESP_ERR_INVALID_STATE, s)
      else
        let event = \<lparr>mgr_ev_type = AUDIO_MGR_EVENT_BUTTON_TRIGGER, mgr_ev_wakeup = wakeup_zero\<rparr>
        in if event_callback (config (s_ctx s)) \<noteq> NULL
           then (ESP_OK, emit (Call_event_callback (event_callback (config (s_ctx s))) event
                                 (user_ctx (config (s_ctx s)))) s)
           else (ESP_OK, s))"

definition audio_manager_start_recording :: "sys \<Rightarrow> esp_err_t \<times> sys" where
  "audio_manager_start_recording s =
     (if \<not> initialized (s_ctx s) then (ESP_ERR_INVALID_STATE, s)
      else (ESP_OK, ctx_upd (\<lambda>c. c\<lparr>recording := True\<rparr>) s))"

definition audio_manager_stop_recording :: "sys \<Rightarrow> esp_err_t \<times> sys" where
  "audio_manager_stop_recording s =
     (if \<not> recording (s_ctx s) then (ESP_OK, s)
      else (ESP_OK, ctx_upd (\<lambda>c. c\<lparr>recording := False\<rparr>) s))"

definition audio_manager_play_audio ::
    "collaborators \<Rightarrow> ptr \<Rightarrow> size_t \<Rightarrow> sys \<Rightarrow> esp_err_t \<times> sys" where
  "audio_manager_play_audio env pcm_data sample_count s =
     (if \<not> initialized (s_ctx s) \<or> pcm_data = NULL \<or> sample_count = 0
      then (ESP_ERR_INVALID_ARG, s)
      else (playback_controller_write env (playback_ctrl (s_ctx s)) pcm_data sample_count,
            emit (Call_playback_controller_write (playback_ctrl (s_ctx s)) pcm_data sample_count) s))"

definition audio_manager_get_playback_free_space :: "collaborators \<Rightarrow> sys \<Rightarrow> size_t \<times> sys" where
  "audio_manager_get_playback_free_space env s =
     (if \<not> initialized (s_ctx s) \<or> playback_ctrl (s_ctx s) = NULL then (0, s)
      else (playback_controller_get_free_space env (playback_ctrl (s_ctx s)),
            emit (Call_playback_controller_get_free_space (playback_ctrl (s_ctx s))) s))"

definition audio_manager_start_playback :: "collaborators \<Rightarrow> sys \<Rightarrow> esp_err_t \<times> sys" where
  "audio_manager_start_playback env s =
     (if \<not> initialized (s_ctx s) then (ESP_ERR_INVALID_STATE, s)
      else (playback_controller_start env (playback_ctrl (s_ctx s)),
            emit (Call_playback_controller_start (playback_ctrl (s_ctx s))) s))"

definition audio_manager_stop_playback :: "collaborators \<Rightarrow> sys \<Rightarrow> esp_err_t \<times> sys" where
  "audio_manager_stop_playback env s =
     (if \<not> initialized (s_ctx s) then (ESP_OK, s)
      else (playback_controller_stop env (playback_ctrl (s_ctx s)),
            emit (Call_playback_controller_stop (playback_ctrl (s_ctx s))) s))"

definition audio_manager_clear_playback_buffer :: "collaborators \<Rightarrow> sys \<Rightarrow> esp_err_t \<times> sys" where
  "audio_manager_clear_playback_buffer env s =
     (if \<not> initialized (s_ctx s) then (ESP_ERR_INVALID_STATE, s)
      else (playback_controller_clear env (playback_ctrl (s_ctx s)),
            emit (Call_playback_controller_clear (playback_ctrl (s_ctx s))) s))"

subsection \<open>Volume, wake-word configuration, state queries\<close>

definition audio_manager_set_volume :: "8 word \<Rightarrow> sys \<Rightarrow> sys" where
  "audio_manager_set_volume vol s =
     (let vol = (if vol > 100 then 100 else vol)
      in ctx_upd (\<lambda>c. c\<lparr>volume := vol\<rparr>) s)"

definition audio_manager_get_volume :: "sys \<Rightarrow> 8 word" where
  "audio_manager_get_volume s = volume (s_ctx s)"

text \<open>
  \<open>audio_manager_update_wakeup_config\<close>: the \<open>memcpy\<close> into the stored configuration comes
  first, the call of the AFE wrapper second, and the wrapper's result is returned.
\<close>

definition audio_manager_update_wakeup_config ::
    "collaborators \<Rightarrow> audio_mgr_wakeup_config_t option \<Rightarrow> sys \<Rightarrow> esp_err_t \<times> sys" where
  "audio_manager_update_wakeup_config env cfg_ptr s =
     (if \<not> initialized (s_ctx s) then (ESP_ERR_INVALID_ARG, s)
      else case cfg_ptr of
        None \<Rightarrow> (ESP_ERR_INVALID_ARG, s)
      | Some w \<Rightarrow>
          let s = ctx_upd (\<lambda>c. c\<lparr>config := (config c)\<lparr>wakeup_config := w\<rparr>\<rparr>) s
          in (afe_wrapper_update_wakeup_config env (afe_wrapper (s_ctx s)) (afe_wakeup w),
              emit (Call_afe_wrapper_update_wakeup_config (afe_wrapper (s_ctx s)) (afe_wakeup w)) s))"

text \<open>
  \<open>audio_manager_get_wakeup_config\<close> writes through its argument: the argument is the
  content behind the pointer before the call (\<open>None\<close> for a null pointer), the second
  component of the result the content after it.
\<close>

definition audio_manager_get_wakeup_config ::
    "audio_mgr_wakeup_config_t option \<Rightarrow> sys \<Rightarrow> esp_err_t \<times> audio_mgr_wakeup_config_t option" where
  "audio_manager_get_wakeup_config out s =
     (if \<not> initialized (s_ctx s) \<or> out = None then (ESP_ERR_INVALID_ARG, out)
      else (ESP_OK, Some (wakeup_config (config (s_ctx s)))))"

definition audio_manager_is_running :: "sys \<Rightarrow> bool" where
  "audio_manager_is_running s = running (s_ctx s)"

definition audio_manager_is_recording :: "sys \<Rightarrow> bool" where
  "audio_manager_is_recording s = recording (s_ctx s)"

definition audio_manager_is_playing :: "collaborators \<Rightarrow> sys \<Rightarrow> bool \<times> sys" where
  "audio_manager_is_playing env s =
     (playback_controller_is_running env (playback_ctrl (s_ctx s)),
      emit (Call_playback_controller_is_running (playback_ctrl (s_ctx s))) s)"

definition audio_manager_set_record_callback :: "ptr \<Rightarrow> ptr \<Rightarrow> sys \<Rightarrow> sys" where
  "audio_manager_set_record_callback callback uctx s =
     (let s = ctx_upd (\<lambda>c. c\<lparr>record_callback := callback\<rparr>) s
      in ctx_upd (\<lambda>c. c\<lparr>record_ctx := uctx\<rparr>) s)"

subsection \<open>Teardown\<close>

text \<open>
  \<open>audio_manager_deinit\<close>: the results of the two stop calls are dropped; each handle is
  destroyed and cleared only when it is not null; the \<open>memset\<close> comes last.
\<close>

definition audio_manager_deinit :: "collaborators \<Rightarrow> sys \<Rightarrow> sys" where
  "audio_manager_deinit env s =
     (if \<not> initialized (s_ctx s) then s
      else
        let s = snd (audio_manager_stop s);
            s = snd (audio_manager_stop_playback env s);
            s = (if button_handler (s_ctx s) \<noteq> NULL
                 then ctx_upd (\<lambda>c. c\<lparr>button_handler := NULL\<rparr>)
                        (emit (Call_button_handler_destroy (button_handler (s_ctx s))) s)
                 else s);
            s = (if afe_wrapper (s_ctx s) \<noteq> NULL
                 then ctx_upd (\<lambda>c. c\<lparr>afe_wrapper := NULL\<rparr>)
                        (emit (Call_afe_wrapper_destroy (afe_wrapper (s_ctx s))) s)
                 else s);
            s = (if playback_ctrl (s_ctx s) \<noteq> NULL
                 then ctx_upd (\<lambda>c. c\<lparr>playback_ctrl := NULL\<rparr>)
                        (emit (Call_playback_controller_destroy (playback_ctrl (s_ctx s))) s)
                 else s);
            s = (if i2s_hal (s_ctx s) \<noteq> NULL
                 then ctx_upd (\<lambda>c. c\<lparr>i2s_hal := NULL\<rparr>)
                        (emit (Call_i2s_hal_destroy (i2s_hal (s_ctx s))) s)
                 else s)
        in ctx_upd (\<lambda>c. ctx_zero) s)"

subsection \<open>The application's configuration builder (audio_config_app.c)\<close>

text \<open>
  \<open>audio_config_app_build\<close>. The first argument is the value of the macro
  \<open>AUDIO_MANAGER_DEFAULT_CONFIG()\<close>, the second the content behind \<open>cfg\<close> before the
  call (\<open>None\<close> for a null pointer); the result is the content after it. The wake word is
  the UTF-8 encoding of the string literal of the source.
\<close>

definition audio_config_app_build ::
    "audio_mgr_config_t \<Rightarrow> audio_mgr_config_t option \<Rightarrow> ptr \<Rightarrow> ptr \<Rightarrow> audio_mgr_config_t option" where
  "audio_config_app_build dflt cfg event_cb uctx =
     (case cfg of
        None \<Rightarrow> None
      | Some _ \<Rightarrow>
          Some (dflt
            \<lparr>hw_config :=
               \<lparr>mic = \<lparr>mic_port = 1, mic_bclk_gpio = 15, mic_lrck_gpio = 2, mic_din_gpio = 39,
                        mic_sample_rate = 16000, mic_bits = 32\<rparr>,
                speaker = \<lparr>speaker_port = 0, speaker_bclk_gpio = 48, speaker_lrck_gpio = 38,
                            speaker_dout_gpio = 47, speaker_sample_rate = 16000,
                            speaker_bits = 16\<rparr>,
                button = \<lparr>button_gpio = 0, button_active_low = True\<rparr>\<rparr>,
             wakeup_config :=
               \<lparr>wakeup_enabled = False,
                wakeup_wake_word_name =
                  Some [CHR 0xE5, CHR 0xB0, CHR 0x8F, CHR 0xE9, CHR 0xB8, CHR 0xAD,
                        CHR 0xE5, CHR 0xB0, CHR 0x8F, CHR 0xE9, CHR 0xB8, CHR 0xAD],
                wakeup_model_partition = Some ''model'',
                wakeup_sensitivity = 2,
                wakeup_timeout_ms = 8000,
                wakeup_end_delay_ms = 1200\<rparr>,
             vad_config :=
               \<lparr>vad_enabled = True, vad_vad_mode = 2, vad_min_speech_ms = 200,
                vad_min_silence_ms = 400\<rparr>,
             afe_config :=
               \<lparr>afe_aec_enabled = True, afe_ns_enabled = True, afe_agc_enabled = True,
                afe_afe_mode = 1\<rparr>,
             event_callback := event_cb,
             user_ctx := uctx\<rparr>))"

subsection \<open>Reachable states\<close>

text \<open>
  The states the program can be in: the state at start, and every state an operation of
  the file leaves behind, called with any arguments and any answers of the
  collaborators. The internal callbacks may fire at any time.
\<close>

inductive reachable :: "sys \<Rightarrow> bool" where
  boot: "reachable sys_boot"
| init: "reachable s \<Longrightarrow> reachable (snd (audio_manager_init env cfg_ptr s))"
| deinit: "reachable s \<Longrightarrow> reachable (audio_manager_deinit env s)"
| start: "reachable s \<Longrightarrow> reachable (snd (audio_manager_start s))"
| stop: "reachable s \<Longrightarrow> reachable (snd (audio_manager_stop s))"
| trigger_conversation: "reachable s \<Longrightarrow> reachable (snd (audio_manager_trigger_conversation s))"
| start_recording: "reachable s \<Longrightarrow> reachable (snd (audio_manager_start_recording s))"
| stop_recording: "reachable s \<Longrightarrow> reachable (snd (audio_manager_stop_recording s))"
| play_audio: "reachable s \<Longrightarrow> reachable (snd (audio_manager_play_audio env pcm_data n s))"
| get_playback_free_space:
    "reachable s \<Longrightarrow> reachable (snd (audio_manager_get_playback_free_space env s))"
| start_playback: "reachable s \<Longrightarrow> reachable (snd (audio_manager_start_playback env s))"
| stop_playback: "reachable s \<Longrightarrow> reachable (snd (audio_manager_stop_playback env s))"
| clear_playback_buffer:
    "reachable s \<Longrightarrow> reachable (snd (audio_manager_clear_playback_buffer env s))"
| set_volume: "reachable s \<Longrightarrow> reachable (audio_manager_set_volume vol s)"
| update_wakeup_config:
    "reachable s \<Longrightarrow> reachable (snd (audio_manager_update_wakeup_config env w_ptr s))"
| is_playing: "reachable s \<Longrightarrow> reachable (snd (audio_manager_is_playing env s))"
| set_record_callback:
    "reachable s \<Longrightarrow> reachable (audio_manager_set_record_callback callback uctx s)"
| button_event: "reachable s \<Longrightarrow> reachable (button_event_handler bev s)"
| afe_event: "reachable s \<Longrightarrow> reachable (afe_event_handler aev s)"
| afe_record: "reachable s \<Longrightarrow> reachable (afe_record_handler pcm_data n s)"

text \<open>All four module handles of a context are set.\<close>

definition handles_set :: "audio_manager_ctx_t \<Rightarrow> bool" where
  "handles_set c =
     (i2s_hal c \<noteq> NULL \<and> playback_ctrl c \<noteq> NULL \<and> afe_wrapper c \<noteq> NULL
      \<and> button_handler c \<noteq> NULL)"

text \<open>
  An operation leaves the wiring alone: the initialised flag and the four module handles
  are after it what they were before.
\<close>

definition same_wiring :: "sys \<Rightarrow> sys \<Rightarrow> bool" where
  "same_wiring s s' =
     (initialized (s_ctx s') = initialized (s_ctx s)
      \<and> i2s_hal (s_ctx s') = i2s_hal (s_ctx s)
      \<and> playback_ctrl (s_ctx s') = playback_ctrl (s_ctx s)
      \<and> afe_wrapper (s_ctx s') = afe_wrapper (s_ctx s)
      \<and> button_handler (s_ctx s') = button_handler (s_ctx s))"

subsection \<open>The write of the playback controller\<close>


subsection \<open>Concrete collaborators and states\<close>

text \<open>
  Collaborators whose every creation succeeds with a handle of its own and whose every
  other call reports success, and variants where one creation, or the playback write or
  the wake-word update, fails.
\<close>

definition env_all_ok :: collaborators where
  "env_all_ok =
     \<lparr>i2s_hal_create = (\<lambda>_ _. 1),
      ring_buffer_create = (\<lambda>_ _. 2),
      playback_controller_create = (\<lambda>_. 3),
      playback_controller_get_reference_buffer = (\<lambda>_. 4),
      playback_controller_write = (\<lambda>_ _ _. ESP_OK),
      playback_controller_get_free_space = (\<lambda>_. 1024),
      playback_controller_start = (\<lambda>_. ESP_OK),
      playback_controller_stop = (\<lambda>_. ESP_OK),
      playback_controller_clear = (\<lambda>_. ESP_OK),
      playback_controller_is_running = (\<lambda>_. False),
      afe_wrapper_create = (\<lambda>_. 5),
      afe_wrapper_update_wakeup_config = (\<lambda>_ _. ESP_OK),
      button_handler_create = (\<lambda>_. 6)\<rparr>"

definition env_fail_hal :: collaborators where
  "env_fail_hal = env_all_ok\<lparr>i2s_hal_create := (\<lambda>_ _. NULL)\<rparr>"

definition env_fail_rb :: collaborators where
  "env_fail_rb = env_all_ok\<lparr>ring_buffer_create := (\<lambda>_ _. NULL)\<rparr>"

definition env_fail_pc :: collaborators where
  "env_fail_pc = env_all_ok\<lparr>playback_controller_create := (\<lambda>_. NULL)\<rparr>"

definition env_fail_afe :: collaborators where
  "env_fail_afe = env_all_ok\<lparr>afe_wrapper_create := (\<lambda>_. NULL)\<rparr>"

definition env_fail_btn :: collaborators where
  "env_fail_btn = env_all_ok\<lparr>button_handler_create := (\<lambda>_. NULL)\<rparr>"


definition env_update_fails :: collaborators where
  "env_update_fails = env_all_ok\<lparr>afe_wrapper_update_wakeup_config := (\<lambda>_ _. ESP_ERR_NO_MEM)\<rparr>"

text \<open>The application's configuration with event callback at address 7 and context 9.\<close>

definition cfg_app :: audio_mgr_config_t where
  "cfg_app =
     (case audio_config_app_build config_zero (Some config_zero) 7 9 of
        Some c \<Rightarrow> c
      | None \<Rightarrow> config_zero)"

text \<open>The state after a first, successful initialisation.\<close>

definition sys_ready :: sys where
  "sys_ready = snd (audio_manager_init env_all_ok (Some cfg_app) sys_boot)"

text \<open>The state after a first initialisation in which the AFE wrapper could not be created.\<close>

definition sys_afe_failed :: sys where
  "sys_afe_failed = snd (audio_manager_init env_fail_afe (Some cfg_app) sys_boot)"

text \<open>
  The initialised state after \<open>audio_manager_start\<close> and \<open>audio_manager_start_recording\<close>,
  and after \<open>audio_manager_start_recording\<close> alone.
\<close>

definition sys_listening :: sys where
  "sys_listening = snd (audio_manager_start_recording (snd (audio_manager_start sys_ready)))"

definition sys_recording_only :: sys where
  "sys_recording_only = snd (audio_manager_start_recording sys_ready)"

text \<open>A wake-word configuration other than the application's.\<close>

definition wakeup_other :: audio_mgr_wakeup_config_t where
  "wakeup_other =
     \<lparr>wakeup_enabled = True, wakeup_wake_word_name = Some ''hi'',
      wakeup_model_partition = Some ''model'', wakeup_sensitivity = 3,
      wakeup_timeout_ms = 5000, wakeup_end_delay_ms = 800\<rparr>"

text \<open>A wake-word detection of the front end: word 2 at -12 dB.\<close>

definition wake_event :: afe_event_t where
  "wake_event =
     \<lparr>afe_ev_type = AFE_EVENT_WAKEUP_DETECTED,
      afe_ev_wakeup = \<lparr>wake_word_index = 2, volume_db = - 12\<rparr>\<rparr>"

section \<open>Properties\<close>

subsection \<open>Unfolding the operations\<close>

lemmas op_simps = emit_def ctx_upd_def Let_def

lemmas err_defs = ESP_OK_def ESP_ERR_NO_MEM_def ESP_ERR_INVALID_ARG_def ESP_ERR_INVALID_STATE_def

lemma init_initialized:
  "initialized (s_ctx s) \<Longrightarrow> audio_manager_init env cfg_ptr s = (ESP_OK, s)"
  by (simp add: audio_manager_init_def)

lemma init_null_config:
  "\<not> initialized (s_ctx s) \<Longrightarrow> audio_manager_init env None s = (ESP_ERR_INVALID_ARG, s)"
  by (simp add: audio_manager_init_def)

lemma init_null_callback:
  "\<not> initialized (s_ctx s) \<Longrightarrow> event_callback cfg = NULL \<Longrightarrow>
   audio_manager_init env (Some cfg) s = (ESP_ERR_INVALID_ARG, s)"
  by (simp add: audio_manager_init_def)

text \<open>
  The six ways through the body of \<open>audio_manager_init\<close>, one for each creation that can
  fail and one for success, with the state each leaves behind.
\<close>

lemma init_fail_hal:
  assumes "\<not> initialized (s_ctx s)" "event_callback cfg \<noteq> NULL"
    "i2s_hal_create env (mic_cfg cfg) (speaker_cfg cfg) = NULL"
  shows "audio_manager_init env (Some cfg) s =
    (ESP_ERR_NO_MEM,
     s\<lparr>s_ctx := (s_ctx s)\<lparr>config := cfg, volume := 80, i2s_hal := NULL\<rparr>,
       calls := calls s @ [Call_i2s_hal_create (mic_cfg cfg) (speaker_cfg cfg)]\<rparr>)"
  using assms by (simp add: audio_manager_init_def op_simps)

lemma init_fail_rb:
  assumes "\<not> initialized (s_ctx s)" "event_callback cfg \<noteq> NULL"
    "i2s_hal_create env (mic_cfg cfg) (speaker_cfg cfg) = hal" "hal \<noteq> NULL"
    "ring_buffer_create env (REFERENCE_BUFFER_SIZE div sizeof_int16) False = NULL"
  shows "audio_manager_init env (Some cfg) s =
    (ESP_ERR_NO_MEM,
     s\<lparr>s_ctx := (s_ctx s)\<lparr>config := cfg, volume := 80, i2s_hal := hal, reference_rb := NULL\<rparr>,
       calls := calls s @
         [Call_i2s_hal_create (mic_cfg cfg) (speaker_cfg cfg),
          Call_ring_buffer_create (REFERENCE_BUFFER_SIZE div sizeof_int16) False,
          Call_i2s_hal_destroy hal]\<rparr>)"
  using assms by (simp add: audio_manager_init_def op_simps)

lemma init_fail_pc:
  assumes "\<not> initialized (s_ctx s)" "event_callback cfg \<noteq> NULL"
    "i2s_hal_create env (mic_cfg cfg) (speaker_cfg cfg) = hal" "hal \<noteq> NULL"
    "ring_buffer_create env (REFERENCE_BUFFER_SIZE div sizeof_int16) False = rb" "rb \<noteq> NULL"
    "playback_controller_create env (playback_cfg hal) = NULL"
  shows "audio_manager_init env (Some cfg) s =
    (ESP_ERR_NO_MEM,
     s\<lparr>s_ctx := (s_ctx s)\<lparr>config := cfg, volume := 80, i2s_hal := hal, reference_rb := rb,
          playback_ctrl := NULL\<rparr>,
       calls := calls s @
         [Call_i2s_hal_create (mic_cfg cfg) (speaker_cfg cfg),
          Call_ring_buffer_create (REFERENCE_BUFFER_SIZE div sizeof_int16) False,
          Call_playback_controller_create (playback_cfg hal),
          Call_ring_buffer_destroy rb,
          Call_i2s_hal_destroy hal]\<rparr>)"
  using assms by (simp add: audio_manager_init_def op_simps)

lemma init_fail_afe:
  assumes "\<not> initialized (s_ctx s)" "event_callback cfg \<noteq> NULL"
    "i2s_hal_create env (mic_cfg cfg) (speaker_cfg cfg) = hal" "hal \<noteq> NULL"
    "ring_buffer_create env (REFERENCE_BUFFER_SIZE div sizeof_int16) False \<noteq> NULL"
    "playback_controller_create env (playback_cfg hal) = pc" "pc \<noteq> NULL"
    "playback_controller_get_reference_buffer env pc = rb"
    "afe_wrapper_create env (afe_cfg cfg hal rb) = NULL"
  shows "audio_manager_init env (Some cfg) s =
    (ESP_ERR_NO_MEM,
     s\<lparr>s_ctx := (s_ctx s)\<lparr>config := cfg, volume := 80, i2s_hal := hal,
          playback_ctrl := pc, reference_rb := rb, afe_wrapper := NULL\<rparr>,
       calls := calls s @
         [Call_i2s_hal_create (mic_cfg cfg) (speaker_cfg cfg),
          Call_ring_buffer_create (REFERENCE_BUFFER_SIZE div sizeof_int16) False,
          Call_playback_controller_create (playback_cfg hal),
          Call_playback_controller_get_reference_buffer pc,
          Call_afe_wrapper_create (afe_cfg cfg hal rb),
          Call_playback_controller_destroy pc,
          Call_i2s_hal_destroy hal]\<rparr>)"
  using assms by (simp add: audio_manager_init_def op_simps)

lemma init_fail_btn:
  assumes "\<not> initialized (s_ctx s)" "event_callback cfg \<noteq> NULL"
    "i2s_hal_create env (mic_cfg cfg) (speaker_cfg cfg) = hal" "hal \<noteq> NULL"
    "ring_buffer_create env (REFERENCE_BUFFER_SIZE div sizeof_int16) False \<noteq> NULL"
    "playback_controller_create env (playback_cfg hal) = pc" "pc \<noteq> NULL"
    "playback_controller_get_reference_buffer env pc = rb"
    "afe_wrapper_create env (afe_cfg cfg hal rb) = afe" "afe \<noteq> NULL"
    "button_handler_create env (button_cfg cfg) = NULL"
  shows "audio_manager_init env (Some cfg) s =
    (ESP_ERR_NO_MEM,
     s\<lparr>s_ctx := (s_ctx s)\<lparr>config := cfg, volume := 80, i2s_hal := hal,
          playback_ctrl := pc, reference_rb := rb, afe_wrapper := afe, button_handler := NULL\<rparr>,
       calls := calls s @
         [Call_i2s_hal_create (mic_cfg cfg) (speaker_cfg cfg),
          Call_ring_buffer_create (REFERENCE_BUFFER_SIZE div sizeof_int16) False,
          Call_playback_controller_create (playback_cfg hal),
          Call_playback_controller_get_reference_buffer pc,
          Call_afe_wrapper_create (afe_cfg cfg hal rb),
          Call_button_handler_create (button_cfg cfg),
          Call_afe_wrapper_destroy afe,
          Call_playback_controller_destroy pc,
          Call_i2s_hal_destroy hal]\<rparr>)"
  using assms by (simp add: audio_manager_init_def op_simps)

lemma init_success:
  assumes "\<not> initialized (s_ctx s)" "event_callback cfg \<noteq> NULL"
    "i2s_hal_create env (mic_cfg cfg) (speaker_cfg cfg) = hal" "hal \<noteq> NULL"
    "ring_buffer_create env (REFERENCE_BUFFER_SIZE div sizeof_int16) False \<noteq> NULL"
    "playback_controller_create env (playback_cfg hal) = pc" "pc \<noteq> NULL"
    "playback_controller_get_reference_buffer env pc = rb"
    "afe_wrapper_create env (afe_cfg cfg hal rb) = afe" "afe \<noteq> NULL"
    "button_handler_create env (button_cfg cfg) = btn" "btn \<noteq> NULL"
  shows "audio_manager_init env (Some cfg) s =
    (ESP_OK,
     s\<lparr>s_ctx := (s_ctx s)\<lparr>config := cfg, volume := 80, i2s_hal := hal,
          playback_ctrl := pc, reference_rb := rb, afe_wrapper := afe, button_handler := btn,
          initialized := True\<rparr>,
       calls := calls s @
         [Call_i2s_hal_create (mic_cfg cfg) (speaker_cfg cfg),
          Call_ring_buffer_create (REFERENCE_BUFFER_SIZE div sizeof_int16) False,
          Call_playback_controller_create (playback_cfg hal),
          Call_playback_controller_get_reference_buffer pc,
          Call_afe_wrapper_create (afe_cfg cfg hal rb),
          Call_button_handler_create (button_cfg cfg)]\<rparr>)"
  using assms by (simp add: audio_manager_init_def op_simps)

text \<open>
  A call that starts uninitialised and reports success went all the way: every creation
  returned a handle, the handles are stored, and the log grew by the six calls.
\<close>

lemma init_ok_uninit:
  assumes uninit: "\<not> initialized (s_ctx s)"
    and ok: "audio_manager_init env (Some cfg) s = (ESP_OK, s1)"
  shows "initialized (s_ctx s1) \<and> handles_set (s_ctx s1)
    \<and> calls s1 = calls s @
         [Call_i2s_hal_create (mic_cfg cfg) (speaker_cfg cfg),
          Call_ring_buffer_create (REFERENCE_BUFFER_SIZE div sizeof_int16) False,
          Call_playback_controller_create (playback_cfg (i2s_hal (s_ctx s1))),
          Call_playback_controller_get_reference_buffer (playback_ctrl (s_ctx s1)),
          Call_afe_wrapper_create (afe_cfg cfg (i2s_hal (s_ctx s1)) (reference_rb (s_ctx s1))),
          Call_button_handler_create (button_cfg cfg)]"
proof -
  define hal where "hal = i2s_hal_create env (mic_cfg cfg) (speaker_cfg cfg)"
  define rb0 where "rb0 = ring_buffer_create env (REFERENCE_BUFFER_SIZE div sizeof_int16) False"
  define pc where "pc = playback_controller_create env (playback_cfg hal)"
  define rb where "rb = playback_controller_get_reference_buffer env pc"
  define afe where "afe = afe_wrapper_create env (afe_cfg cfg hal rb)"
  define btn where "btn = button_handler_create env (button_cfg cfg)"
  note d = hal_def [symmetric] rb0_def [symmetric] pc_def [symmetric] rb_def [symmetric]
    afe_def [symmetric] btn_def [symmetric]
  have ne: "ESP_ERR_INVALID_ARG \<noteq> ESP_OK" "ESP_ERR_NO_MEM \<noteq> ESP_OK"
    by (simp_all add: err_defs)
  have cb: "event_callback cfg \<noteq> NULL"
    using init_null_callback [OF uninit, of cfg env] ok ne by auto
  have hal: "hal \<noteq> NULL"
    using init_fail_hal [OF uninit cb, of env] ok ne d by auto
  have rb0: "rb0 \<noteq> NULL"
    using init_fail_rb [OF uninit cb d(1) hal] ok ne d by auto
  have pc: "pc \<noteq> NULL"
    using init_fail_pc [OF uninit cb d(1) hal d(2) rb0] ok ne by (auto simp: pc_def)
  have afe: "afe \<noteq> NULL"
    using init_fail_afe [OF uninit cb d(1) hal rb0 [unfolded rb0_def] d(3) pc d(4)] ok ne
    by (auto simp: afe_def)
  have btn: "btn \<noteq> NULL"
    using init_fail_btn [OF uninit cb d(1) hal rb0 [unfolded rb0_def] d(3) pc d(4) d(5) afe] ok ne
    by (auto simp: btn_def)
  have "s1 = s\<lparr>s_ctx := (s_ctx s)\<lparr>config := cfg, volume := 80, i2s_hal := hal,
          playback_ctrl := pc, reference_rb := rb, afe_wrapper := afe, button_handler := btn,
          initialized := True\<rparr>,
       calls := calls s @
         [Call_i2s_hal_create (mic_cfg cfg) (speaker_cfg cfg),
          Call_ring_buffer_create (REFERENCE_BUFFER_SIZE div sizeof_int16) False,
          Call_playback_controller_create (playback_cfg hal),
          Call_playback_controller_get_reference_buffer pc,
          Call_afe_wrapper_create (afe_cfg cfg hal rb),
          Call_button_handler_create (button_cfg cfg)]\<rparr>"
    using init_success [OF uninit cb d(1) hal rb0 [unfolded rb0_def] d(3) pc d(4) d(5) afe d(6) btn]
      ok by simp
  then show ?thesis
    using hal pc afe btn by (simp add: handles_set_def)
qed

text \<open>The log an initialisation writes does not depend on the log it finds.\<close>

lemma init_frame:
  "audio_manager_init env cfg_ptr \<lparr>s_ctx = c, calls = t\<rparr> =
     (fst (audio_manager_init env cfg_ptr \<lparr>s_ctx = c, calls = []\<rparr>),
      \<lparr>s_ctx = s_ctx (snd (audio_manager_init env cfg_ptr \<lparr>s_ctx = c, calls = []\<rparr>)),
       calls = t @ calls (snd (audio_manager_init env cfg_ptr \<lparr>s_ctx = c, calls = []\<rparr>))\<rparr>)"
  by (simp add: audio_manager_init_def op_simps split: option.split)

subsection \<open>The wiring invariant\<close>

lemma same_wiring_ops:
  "same_wiring s (snd (audio_manager_start s))"
  "same_wiring s (snd (audio_manager_stop s))"
  "same_wiring s (snd (audio_manager_trigger_conversation s))"
  "same_wiring s (snd (audio_manager_start_recording s))"
  "same_wiring s (snd (audio_manager_stop_recording s))"
  "same_wiring s (snd (audio_manager_play_audio env p n s))"
  "same_wiring s (snd (audio_manager_get_playback_free_space env s))"
  "same_wiring s (snd (audio_manager_start_playback env s))"
  "same_wiring s (snd (audio_manager_stop_playback env s))"
  "same_wiring s (snd (audio_manager_clear_playback_buffer env s))"
  "same_wiring s (audio_manager_set_volume vol s)"
  "same_wiring s (snd (audio_manager_update_wakeup_config env w s))"
  "same_wiring s (snd (audio_manager_is_playing env s))"
  "same_wiring s (audio_manager_set_record_callback cb u s)"
  "same_wiring s (button_event_handler bev s)"
  "same_wiring s (afe_event_handler aev s)"
  "same_wiring s (afe_record_handler p n s)"
  by (simp_all add: same_wiring_def audio_manager_start_def audio_manager_stop_def
       audio_manager_trigger_conversation_def audio_manager_start_recording_def
       audio_manager_stop_recording_def audio_manager_play_audio_def
       audio_manager_get_playback_free_space_def audio_manager_start_playback_def
       audio_manager_stop_playback_def audio_manager_clear_playback_buffer_def
       audio_manager_set_volume_def audio_manager_update_wakeup_config_def
       audio_manager_is_playing_def audio_manager_set_record_callback_def
       button_event_handler_def afe_event_handler_def afe_record_handler_def
       op_simps split: option.split)

lemma same_wiring_handles:
  "same_wiring s s' \<Longrightarrow> initialized (s_ctx s) \<longrightarrow> handles_set (s_ctx s) \<Longrightarrow>
   initialized (s_ctx s') \<longrightarrow> handles_set (s_ctx s')"
  by (simp add: same_wiring_def handles_set_def)

lemma init_handles:
  assumes "initialized (s_ctx s) \<longrightarrow> handles_set (s_ctx s)"
  shows "initialized (s_ctx (snd (audio_manager_init env cfg_ptr s)))
    \<longrightarrow> handles_set (s_ctx (snd (audio_manager_init env cfg_ptr s)))"
proof (cases "initialized (s_ctx s)")
  case True
  with assms show ?thesis by (simp add: init_initialized)
next
  case False
  then show ?thesis
    by (simp add: audio_manager_init_def op_simps handles_set_def split: option.split)
qed

lemma deinit_uninitialized:
  "\<not> initialized (s_ctx (audio_manager_deinit env s))"
  by (simp add: audio_manager_deinit_def op_simps ctx_zero_def)

text \<open>In every reachable state an initialised context holds all four handles.\<close>

lemma reachable_handles:
  "reachable s \<Longrightarrow> initialized (s_ctx s) \<longrightarrow> handles_set (s_ctx s)"
proof (induction rule: reachable.induct)
  case boot
  show ?case by (simp add: sys_boot_def ctx_zero_def)
next
  case (init s env cfg_ptr)
  show ?case by (rule init_handles [OF init.IH])
next
  case (deinit s env)
  show ?case by (simp add: deinit_uninitialized)
qed (erule same_wiring_handles [OF same_wiring_ops(1)] same_wiring_handles [OF same_wiring_ops(2)]
       same_wiring_handles [OF same_wiring_ops(3)] same_wiring_handles [OF same_wiring_ops(4)]
       same_wiring_handles [OF same_wiring_ops(5)] same_wiring_handles [OF same_wiring_ops(6)]
       same_wiring_handles [OF same_wiring_ops(7)] same_wiring_handles [OF same_wiring_ops(8)]
       same_wiring_handles [OF same_wiring_ops(9)] same_wiring_handles [OF same_wiring_ops(10)]
       same_wiring_handles [OF same_wiring_ops(11)] same_wiring_handles [OF same_wiring_ops(12)]
       same_wiring_handles [OF same_wiring_ops(13)] same_wiring_handles [OF same_wiring_ops(14)]
       same_wiring_handles [OF same_wiring_ops(15)] same_wiring_handles [OF same_wiring_ops(16)]
       same_wiring_handles [OF same_wiring_ops(17)])+

text \<open>Teardown of an initialised context that holds all four handles.\<close>

lemma deinit_wired:
  assumes "initialized (s_ctx s)" "handles_set (s_ctx s)"
  shows "audio_manager_deinit env s =
    s\<lparr>s_ctx := ctx_zero,
      calls := calls s @
        [Call_playback_controller_stop (playback_ctrl (s_ctx s)),
         Call_button_handler_destroy (button_handler (s_ctx s)),
         Call_afe_wrapper_destroy (afe_wrapper (s_ctx s)),
         Call_playback_controller_destroy (playback_ctrl (s_ctx s)),
         Call_i2s_hal_destroy (i2s_hal (s_ctx s))]\<rparr>"
  using assms
  by (simp add: audio_manager_deinit_def audio_manager_stop_def audio_manager_stop_playback_def
        op_simps handles_set_def)

lemma init_after_zero:
  assumes "s_ctx d = ctx_zero"
  shows "fst (audio_manager_init env cfg_ptr d) = fst (audio_manager_init env cfg_ptr sys_boot)
    \<and> s_ctx (snd (audio_manager_init env cfg_ptr d))
        = s_ctx (snd (audio_manager_init env cfg_ptr sys_boot))
    \<and> calls (snd (audio_manager_init env cfg_ptr d))
        = calls d @ calls (snd (audio_manager_init env cfg_ptr sys_boot))"
proof -
  have d: "d = \<lparr>s_ctx = ctx_zero, calls = calls d\<rparr>"
    using assms by (cases d) simp
  show ?thesis
    by (subst (1 2 3) d) (simp add: init_frame [of env cfg_ptr ctx_zero "calls d"] sys_boot_def)
qed

subsection \<open>The concrete states\<close>

lemma cfg_app_callback: "event_callback cfg_app = 7" "user_ctx cfg_app = 9"
  by (simp_all add: cfg_app_def audio_config_app_build_def)

lemma sys_boot_uninitialized: "\<not> initialized (s_ctx sys_boot)"
  by (simp add: sys_boot_def ctx_zero_def)

lemma sys_ready_eq:
  "sys_ready =
     \<lparr>s_ctx = ctx_zero\<lparr>config := cfg_app, volume := 80, i2s_hal := 1, playback_ctrl := 3,
                reference_rb := 4, afe_wrapper := 5, button_handler := 6, initialized := True\<rparr>,
      calls = [Call_i2s_hal_create (mic_cfg cfg_app) (speaker_cfg cfg_app),
               Call_ring_buffer_create (REFERENCE_BUFFER_SIZE div sizeof_int16) False,
               Call_playback_controller_create (playback_cfg 1),
               Call_playback_controller_get_reference_buffer 3,
               Call_afe_wrapper_create (afe_cfg cfg_app 1 4),
               Call_button_handler_create (button_cfg cfg_app)]\<rparr>"
  by (simp add: sys_ready_def sys_boot_def audio_manager_init_def op_simps env_all_ok_def
        cfg_app_callback NULL_def ctx_zero_def)

lemma sys_afe_failed_eq:
  "sys_afe_failed =
     \<lparr>s_ctx = ctx_zero\<lparr>config := cfg_app, volume := 80, i2s_hal := 1, playback_ctrl := 3,
                reference_rb := 4\<rparr>,
      calls = [Call_i2s_hal_create (mic_cfg cfg_app) (speaker_cfg cfg_app),
               Call_ring_buffer_create (REFERENCE_BUFFER_SIZE div sizeof_int16) False,
               Call_playback_controller_create (playback_cfg 1),
               Call_playback_controller_get_reference_buffer 3,
               Call_afe_wrapper_create (afe_cfg cfg_app 1 4),
               Call_playback_controller_destroy 3,
               Call_i2s_hal_destroy 1]\<rparr>"
  by (simp add: sys_afe_failed_def sys_boot_def audio_manager_init_def op_simps env_fail_afe_def
        env_all_ok_def cfg_app_callback NULL_def ctx_zero_def)

lemma sys_ready_initialized: "initialized (s_ctx sys_ready)"
  by (simp add: sys_ready_eq)

lemma sys_ready_reachable: "reachable sys_ready"
  unfolding sys_ready_def by (rule reachable.init [OF reachable.boot])

lemma sys_afe_failed_reachable: "reachable sys_afe_failed"
  unfolding sys_afe_failed_def by (rule reachable.init [OF reachable.boot])

lemma sys_listening_eq:
  "sys_listening = sys_ready\<lparr>s_ctx := (s_ctx sys_ready)\<lparr>running := True, recording := True\<rparr>\<rparr>"
  by (simp add: sys_listening_def audio_manager_start_def audio_manager_start_recording_def
        op_simps sys_ready_eq ctx_zero_def)

lemma sys_recording_only_eq:
  "sys_recording_only = sys_ready\<lparr>s_ctx := (s_ctx sys_ready)\<lparr>recording := True\<rparr>\<rparr>"
  by (simp add: sys_recording_only_def audio_manager_start_recording_def op_simps sys_ready_eq)

lemma sys_recording_only_reachable: "reachable sys_recording_only"
  unfolding sys_recording_only_def by (rule reachable.start_recording [OF sys_ready_reachable])

subsection \<open>Initialisation: rollback, idempotence, argument checks\<close>

text \<open>
  Claim C1, as amended. An \<open>audio_manager_init\<close> that starts uninitialised with a
  configuration and an event callback, and in which a creation fails, returns
  \<open>ESP_ERR_NO_MEM\<close>. Up to the failure it has made the creation calls in their fixed order
  and then destroyed what it still holds, latest first: nothing when the I2S HAL fails;
  the I2S HAL when the ring buffer fails; the ring buffer, then the I2S HAL when the
  playback controller fails; the playback controller, then the I2S HAL when the AFE
  wrapper fails; the AFE wrapper, the playback controller, then the I2S HAL when the
  button handler fails. Once the playback controller exists the ring buffer is no longer
  destroyed on its own. The context stays uninitialised, its \<open>running\<close> and \<open>recording\<close>
  flags and its record callback are untouched, and it keeps the configuration passed in
  and the volume 80.
\<close>

theorem init_rollback:
  assumes "\<not> initialized (s_ctx s)" and "event_callback cfg \<noteq> NULL"
    and "hal = i2s_hal_create env (mic_cfg cfg) (speaker_cfg cfg)"
    and "rb0 = ring_buffer_create env (REFERENCE_BUFFER_SIZE div sizeof_int16) False"
    and "pc = playback_controller_create env (playback_cfg hal)"
    and "rb = playback_controller_get_reference_buffer env pc"
    and "afe = afe_wrapper_create env (afe_cfg cfg hal rb)"
    and "btn = button_handler_create env (button_cfg cfg)"
    and "hal = NULL \<or> rb0 = NULL \<or> pc = NULL \<or> afe = NULL \<or> btn = NULL"
    and "s' = snd (audio_manager_init env (Some cfg) s)"
  shows "fst (audio_manager_init env (Some cfg) s) = ESP_ERR_NO_MEM
    \<and> calls s' = calls s @
         (if hal = NULL then
            [Call_i2s_hal_create (mic_cfg cfg) (speaker_cfg cfg)]
          else if rb0 = NULL then
            [Call_i2s_hal_create (mic_cfg cfg) (speaker_cfg cfg),
             Call_ring_buffer_create (REFERENCE_BUFFER_SIZE div sizeof_int16) False,
             Call_i2s_hal_destroy hal]
          else if pc = NULL then
            [Call_i2s_hal_create (mic_cfg cfg) (speaker_cfg cfg),
             Call_ring_buffer_create (REFERENCE_BUFFER_SIZE div sizeof_int16) False,
             Call_playback_controller_create (playback_cfg hal),
             Call_ring_buffer_destroy rb0,
             Call_i2s_hal_destroy hal]
          else if afe = NULL then
            [Call_i2s_hal_create (mic_cfg cfg) (speaker_cfg cfg),
             Call_ring_buffer_create (REFERENCE_BUFFER_SIZE div sizeof_int16) False,
             Call_playback_controller_create (playback_cfg hal),
             Call_playback_controller_get_reference_buffer pc,
             Call_afe_wrapper_create (afe_cfg cfg hal rb),
             Call_playback_controller_destroy pc,
             Call_i2s_hal_destroy hal]
          else
            [Call_i2s_hal_create (mic_cfg cfg) (speaker_cfg cfg),
             Call_ring_buffer_create (REFERENCE_BUFFER_SIZE div sizeof_int16) False,
             Call_playback_controller_create (playback_cfg hal),
             Call_playback_controller_get_reference_buffer pc,
             Call_afe_wrapper_create (afe_cfg cfg hal rb),
             Call_button_handler_create (button_cfg cfg),
             Call_afe_wrapper_destroy afe,
             Call_playback_controller_destroy pc,
             Call_i2s_hal_destroy hal])
    \<and> \<not> initialized (s_ctx s')
    \<and> running (s_ctx s') = running (s_ctx s)
    \<and> recording (s_ctx s') = recording (s_ctx s)
    \<and> record_callback (s_ctx s') = record_callback (s_ctx s)
    \<and> record_ctx (s_ctx s') = record_ctx (s_ctx s)
    \<and> config (s_ctx s') = cfg
    \<and> volume (s_ctx s') = 80"
proof -
  note u = assms(1) and cb = assms(2)
  note hal = assms(3) [symmetric] and rb0 = assms(4) [symmetric] and pc = assms(5) [symmetric]
    and rb = assms(6) [symmetric] and afe = assms(7) [symmetric] and btn = assms(8) [symmetric]
  consider (a) "hal = NULL"
    | (b) "hal \<noteq> NULL" "rb0 = NULL"
    | (c) "hal \<noteq> NULL" "rb0 \<noteq> NULL" "pc = NULL"
    | (d) "hal \<noteq> NULL" "rb0 \<noteq> NULL" "pc \<noteq> NULL" "afe = NULL"
    | (e) "hal \<noteq> NULL" "rb0 \<noteq> NULL" "pc \<noteq> NULL" "afe \<noteq> NULL" "btn = NULL"
    using assms(9) by blast
  then show ?thesis
  proof cases
    case a
    show ?thesis
      using init_fail_hal [OF u cb hal [unfolded a]] a u by (simp add: assms(10))
  next
    case b
    show ?thesis
      using init_fail_rb [OF u cb hal b(1) rb0 [unfolded b(2)]] b u by (simp add: assms(10))
  next
    case c
    show ?thesis
      using init_fail_pc [OF u cb hal c(1) rb0 c(2) pc [unfolded c(3)]] c u
      by (simp add: assms(10))
  next
    case d
    show ?thesis
      using init_fail_afe [OF u cb hal d(1) d(2) [unfolded assms(4)] pc d(3) rb afe [unfolded d(4)]]
        d u
      by (simp add: assms(10))
  next
    case e
    show ?thesis
      using init_fail_btn [OF u cb hal e(1) e(2) [unfolded assms(4)] pc e(3) rb afe e(4)
          btn [unfolded e(5)]] e u
      by (simp add: assms(10))
  qed
qed

text \<open>
  The theorem at the application's configuration, from the state at start, once for each
  creation that fails.
\<close>

theorem init_rollback_witness:
  "\<not> initialized (s_ctx sys_boot) \<and> event_callback cfg_app \<noteq> NULL
   \<and> fst (audio_manager_init env_fail_hal (Some cfg_app) sys_boot) = ESP_ERR_NO_MEM
   \<and> calls (snd (audio_manager_init env_fail_hal (Some cfg_app) sys_boot)) =
        [Call_i2s_hal_create (mic_cfg cfg_app) (speaker_cfg cfg_app)]
   \<and> fst (audio_manager_init env_fail_rb (Some cfg_app) sys_boot) = ESP_ERR_NO_MEM
   \<and> calls (snd (audio_manager_init env_fail_rb (Some cfg_app) sys_boot)) =
        [Call_i2s_hal_create (mic_cfg cfg_app) (speaker_cfg cfg_app),
         Call_ring_buffer_create (REFERENCE_BUFFER_SIZE div sizeof_int16) False,
         Call_i2s_hal_destroy 1]
   \<and> fst (audio_manager_init env_fail_pc (Some cfg_app) sys_boot) = ESP_ERR_NO_MEM
   \<and> calls (snd (audio_manager_init env_fail_pc (Some cfg_app) sys_boot)) =
        [Call_i2s_hal_create (mic_cfg cfg_app) (speaker_cfg cfg_app),
         Call_ring_buffer_create (REFERENCE_BUFFER_SIZE div sizeof_int16) False,
         Call_playback_controller_create (playback_cfg 1),
         Call_ring_buffer_destroy 2,
         Call_i2s_hal_destroy 1]
   \<and> fst (audio_manager_init env_fail_afe (Some cfg_app) sys_boot) = ESP_ERR_NO_MEM
   \<and> calls (snd (audio_manager_init env_fail_afe (Some cfg_app) sys_boot)) =
        [Call_i2s_hal_create (mic_cfg cfg_app) (speaker_cfg cfg_app),
         Call_ring_buffer_create (REFERENCE_BUFFER_SIZE div sizeof_int16) False,
         Call_playback_controller_create (playback_cfg 1),
         Call_playback_controller_get_reference_buffer 3,
         Call_afe_wrapper_create (afe_cfg cfg_app 1 4),
         Call_playback_controller_destroy 3,
         Call_i2s_hal_destroy 1]
   \<and> fst (audio_manager_init env_fail_btn (Some cfg_app) sys_boot) = ESP_ERR_NO_MEM
   \<and> calls (snd (audio_manager_init env_fail_btn (Some cfg_app) sys_boot)) =
        [Call_i2s_hal_create (mic_cfg cfg_app) (speaker_cfg cfg_app),
         Call_ring_buffer_create (REFERENCE_BUFFER_SIZE div sizeof_int16) False,
         Call_playback_controller_create (playback_cfg 1),
         Call_playback_controller_get_reference_buffer 3,
         Call_afe_wrapper_create (afe_cfg cfg_app 1 4),
         Call_button_handler_create (button_cfg cfg_app),
         Call_afe_wrapper_destroy 5,
         Call_playback_controller_destroy 3,
         Call_i2s_hal_destroy 1]
   \<and> volume (s_ctx (snd (audio_manager_init env_fail_btn (Some cfg_app) sys_boot))) = 80
   \<and> config (s_ctx (snd (audio_manager_init env_fail_btn (Some cfg_app) sys_boot))) = cfg_app
   \<and> \<not> initialized (s_ctx (snd (audio_manager_init env_fail_btn (Some cfg_app) sys_boot)))"
proof -
  have u: "\<not> initialized (s_ctx sys_boot)"
    by (rule sys_boot_uninitialized)
  have cb: "event_callback cfg_app \<noteq> NULL"
    by (simp add: cfg_app_callback NULL_def)
  have one: "(1::nat) \<noteq> NULL" "(2::nat) \<noteq> NULL" "(3::nat) \<noteq> NULL" "(5::nat) \<noteq> NULL"
    by (simp_all add: NULL_def)
  note r = init_rollback [OF u cb refl refl refl refl refl refl _ refl]
  have a: "fst (audio_manager_init env_fail_hal (Some cfg_app) sys_boot) = ESP_ERR_NO_MEM
      \<and> calls (snd (audio_manager_init env_fail_hal (Some cfg_app) sys_boot)) =
        [Call_i2s_hal_create (mic_cfg cfg_app) (speaker_cfg cfg_app)]"
    using r [of env_fail_hal] one
    by (simp add: env_fail_hal_def env_all_ok_def sys_boot_def)
  have b: "fst (audio_manager_init env_fail_rb (Some cfg_app) sys_boot) = ESP_ERR_NO_MEM
      \<and> calls (snd (audio_manager_init env_fail_rb (Some cfg_app) sys_boot)) =
        [Call_i2s_hal_create (mic_cfg cfg_app) (speaker_cfg cfg_app),
         Call_ring_buffer_create (REFERENCE_BUFFER_SIZE div sizeof_int16) False,
         Call_i2s_hal_destroy 1]"
    using r [of env_fail_rb] one
    by (simp add: env_fail_rb_def env_all_ok_def sys_boot_def)
  have c: "fst (audio_manager_init env_fail_pc (Some cfg_app) sys_boot) = ESP_ERR_NO_MEM
      \<and> calls (snd (audio_manager_init env_fail_pc (Some cfg_app) sys_boot)) =
        [Call_i2s_hal_create (mic_cfg cfg_app) (speaker_cfg cfg_app),
         Call_ring_buffer_create (REFERENCE_BUFFER_SIZE div sizeof_int16) False,
         Call_playback_controller_create (playback_cfg 1),
         Call_ring_buffer_destroy 2,
         Call_i2s_hal_destroy 1]"
    using r [of env_fail_pc] one
    by (simp add: env_fail_pc_def env_all_ok_def sys_boot_def)
  have d: "fst (audio_manager_init env_fail_afe (Some cfg_app) sys_boot) = ESP_ERR_NO_MEM
      \<and> calls (snd (audio_manager_init env_fail_afe (Some cfg_app) sys_boot)) =
        [Call_i2s_hal_create (mic_cfg cfg_app) (speaker_cfg cfg_app),
         Call_ring_buffer_create (REFERENCE_BUFFER_SIZE div sizeof_int16) False,
         Call_playback_controller_create (playback_cfg 1),
         Call_playback_controller_get_reference_buffer 3,
         Call_afe_wrapper_create (afe_cfg cfg_app 1 4),
         Call_playback_controller_destroy 3,
         Call_i2s_hal_destroy 1]"
    using r [of env_fail_afe] one
    by (simp add: env_fail_afe_def env_all_ok_def sys_boot_def)
  have e: "fst (audio_manager_init env_fail_btn (Some cfg_app) sys_boot) = ESP_ERR_NO_MEM
      \<and> calls (snd (audio_manager_init env_fail_btn (Some cfg_app) sys_boot)) =
        [Call_i2s_hal_create (mic_cfg cfg_app) (speaker_cfg cfg_app),
         Call_ring_buffer_create (REFERENCE_BUFFER_SIZE div sizeof_int16) False,
         Call_playback_controller_create (playback_cfg 1),
         Call_playback_controller_get_reference_buffer 3,
         Call_afe_wrapper_create (afe_cfg cfg_app 1 4),
         Call_button_handler_create (button_cfg cfg_app),
         Call_afe_wrapper_destroy 5,
         Call_playback_controller_destroy 3,
         Call_i2s_hal_destroy 1]
      \<and> volume (s_ctx (snd (audio_manager_init env_fail_btn (Some cfg_app) sys_boot))) = 80
      \<and> config (s_ctx (snd (audio_manager_init env_fail_btn (Some cfg_app) sys_boot))) = cfg_app
      \<and> \<not> initialized (s_ctx (snd (audio_manager_init env_fail_btn (Some cfg_app) sys_boot)))"
    using r [of env_fail_btn] one
    by (simp add: env_fail_btn_def env_all_ok_def sys_boot_def)
  from u cb a b c d e show ?thesis by simp
qed

text \<open>
  Against C1 as stated: when the AFE wrapper cannot be created in the first
  initialisation, the call returns \<open>ESP_ERR_NO_MEM\<close> and the context is not what it was.
  It is uninitialised, yet the volume is 80 and the handles of the destroyed I2S HAL and
  playback controller are still stored; and the ring buffer created in the second step
  (handle 2) is not among the destroyed.
\<close>

theorem init_rollback_counterexample:
  "\<not> initialized (s_ctx sys_boot)
   \<and> fst (audio_manager_init env_fail_afe (Some cfg_app) sys_boot) = ESP_ERR_NO_MEM
   \<and> s_ctx sys_afe_failed \<noteq> s_ctx sys_boot
   \<and> \<not> initialized (s_ctx sys_afe_failed)
   \<and> volume (s_ctx sys_afe_failed) \<noteq> 0
   \<and> i2s_hal (s_ctx sys_afe_failed) \<noteq> NULL
   \<and> playback_ctrl (s_ctx sys_afe_failed) \<noteq> NULL
   \<and> Call_ring_buffer_create (REFERENCE_BUFFER_SIZE div sizeof_int16) False
        \<in> set (calls sys_afe_failed)
   \<and> ring_buffer_create env_fail_afe (REFERENCE_BUFFER_SIZE div sizeof_int16) False = 2
   \<and> Call_ring_buffer_destroy 2 \<notin> set (calls sys_afe_failed)"
proof -
  have r: "fst (audio_manager_init env_fail_afe (Some cfg_app) sys_boot) = ESP_ERR_NO_MEM"
    by (simp add: sys_boot_def audio_manager_init_def op_simps env_fail_afe_def env_all_ok_def
          cfg_app_callback NULL_def ctx_zero_def)
  have v: "volume (s_ctx sys_afe_failed) = 80"
    by (simp add: sys_afe_failed_eq)
  have v0: "volume (s_ctx sys_boot) = 0"
    by (simp add: sys_boot_def ctx_zero_def)
  have ne: "s_ctx sys_afe_failed \<noteq> s_ctx sys_boot"
    using v v0 by auto
  show ?thesis
    using r ne v
    by (simp add: sys_boot_uninitialized)
       (simp add: sys_afe_failed_eq ctx_zero_def NULL_def env_fail_afe_def env_all_ok_def)
qed

text \<open>
  Claim C3. On an initialised context \<open>audio_manager_init\<close> returns \<open>ESP_OK\<close> and changes
  nothing: no field of the context, and no call to a collaborator. So after a first
  initialisation that succeeds, a second one, with whatever argument and collaborators,
  returns \<open>ESP_OK\<close> again and leaves the state of the first; the log of both calls together
  holds each creation once.
\<close>

theorem init_idempotent:
  "(initialized (s_ctx s) \<longrightarrow> audio_manager_init env cfg_ptr s = (ESP_OK, s))
   \<and> (\<not> initialized (s_ctx s) \<and> audio_manager_init env (Some cfg) s = (ESP_OK, s1) \<longrightarrow>
        audio_manager_init env' cfg_ptr' s1 = (ESP_OK, s1)
        \<and> calls (snd (audio_manager_init env' cfg_ptr' s1)) = calls s @
            [Call_i2s_hal_create (mic_cfg cfg) (speaker_cfg cfg),
             Call_ring_buffer_create (REFERENCE_BUFFER_SIZE div sizeof_int16) False,
             Call_playback_controller_create (playback_cfg (i2s_hal (s_ctx s1))),
             Call_playback_controller_get_reference_buffer (playback_ctrl (s_ctx s1)),
             Call_afe_wrapper_create (afe_cfg cfg (i2s_hal (s_ctx s1)) (reference_rb (s_ctx s1))),
             Call_button_handler_create (button_cfg cfg)])"
proof (intro conjI impI)
  assume "initialized (s_ctx s)"
  then show "audio_manager_init env cfg_ptr s = (ESP_OK, s)"
    by (rule init_initialized)
next
  assume a: "\<not> initialized (s_ctx s) \<and> audio_manager_init env (Some cfg) s = (ESP_OK, s1)"
  note first = init_ok_uninit [OF conjunct1 [OF a] conjunct2 [OF a]]
  from first show second: "audio_manager_init env' cfg_ptr' s1 = (ESP_OK, s1)"
    by (simp add: init_initialized)
  from first show "calls (snd (audio_manager_init env' cfg_ptr' s1)) = calls s @
            [Call_i2s_hal_create (mic_cfg cfg) (speaker_cfg cfg),
             Call_ring_buffer_create (REFERENCE_BUFFER_SIZE div sizeof_int16) False,
             Call_playback_controller_create (playback_cfg (i2s_hal (s_ctx s1))),
             Call_playback_controller_get_reference_buffer (playback_ctrl (s_ctx s1)),
             Call_afe_wrapper_create (afe_cfg cfg (i2s_hal (s_ctx s1)) (reference_rb (s_ctx s1))),
             Call_button_handler_create (button_cfg cfg)]"
    by (simp add: second)
qed

text \<open>
  The theorem at the first initialisation with the application's configuration, followed
  by a second one with the same configuration.
\<close>

theorem init_idempotent_witness:
  "\<not> initialized (s_ctx sys_boot)
   \<and> audio_manager_init env_all_ok (Some cfg_app) sys_boot = (ESP_OK, sys_ready)
   \<and> initialized (s_ctx sys_ready)
   \<and> audio_manager_init env_all_ok (Some cfg_app) sys_ready = (ESP_OK, sys_ready)
   \<and> calls (snd (audio_manager_init env_all_ok (Some cfg_app) sys_ready)) =
        [Call_i2s_hal_create (mic_cfg cfg_app) (speaker_cfg cfg_app),
         Call_ring_buffer_create (REFERENCE_BUFFER_SIZE div sizeof_int16) False,
         Call_playback_controller_create (playback_cfg 1),
         Call_playback_controller_get_reference_buffer 3,
         Call_afe_wrapper_create (afe_cfg cfg_app 1 4),
         Call_button_handler_create (button_cfg cfg_app)]"
proof -
  have first: "audio_manager_init env_all_ok (Some cfg_app) sys_boot = (ESP_OK, sys_ready)"
    unfolding sys_ready_eq
    by (simp add: sys_boot_def audio_manager_init_def op_simps env_all_ok_def
          cfg_app_callback NULL_def ctx_zero_def)
  show ?thesis
    using init_idempotent [of sys_boot env_all_ok "Some cfg_app" cfg_app sys_ready
        env_all_ok "Some cfg_app"]
      init_idempotent [of sys_ready env_all_ok "Some cfg_app" cfg_app sys_ready
        env_all_ok "Some cfg_app"]
      first sys_boot_uninitialized sys_ready_initialized
    by (simp add: sys_ready_eq sys_boot_def)
qed

text \<open>
  Claim C4, as amended. In the uninitialised state, \<open>audio_manager_init\<close> with a null
  configuration, or with a configuration whose event callback is null, returns
  \<open>ESP_ERR_INVALID_ARG\<close>, changes nothing in the state and so leaves it uninitialised.
\<close>

theorem init_invalid_argument:
  assumes "\<not> initialized (s_ctx s)"
  shows "audio_manager_init env None s = (ESP_ERR_INVALID_ARG, s)
    \<and> (event_callback cfg = NULL \<longrightarrow>
         audio_manager_init env (Some cfg) s = (ESP_ERR_INVALID_ARG, s))
    \<and> \<not> initialized (s_ctx (snd (audio_manager_init env None s)))
    \<and> (event_callback cfg = NULL \<longrightarrow>
         \<not> initialized (s_ctx (snd (audio_manager_init env (Some cfg) s))))"
  using assms by (simp add: init_null_config init_null_callback)

theorem init_invalid_argument_witness:
  "\<not> initialized (s_ctx sys_boot) \<and> event_callback config_zero = NULL
   \<and> audio_manager_init env_all_ok None sys_boot = (ESP_ERR_INVALID_ARG, sys_boot)
   \<and> audio_manager_init env_all_ok (Some config_zero) sys_boot = (ESP_ERR_INVALID_ARG, sys_boot)"
proof -
  have z: "event_callback config_zero = NULL"
    by (simp add: config_zero_def)
  show ?thesis
    using init_invalid_argument [OF sys_boot_uninitialized, of env_all_ok config_zero]
      sys_boot_uninitialized z
    by simp
qed

text \<open>
  Against C4 as stated: on the context of a successful initialisation, a call with a null
  configuration returns \<open>ESP_OK\<close>, not \<open>ESP_ERR_INVALID_ARG\<close>, and the context stays
  initialised.
\<close>

theorem init_invalid_argument_counterexample:
  "initialized (s_ctx sys_ready)
   \<and> fst (audio_manager_init env_all_ok None sys_ready) = ESP_OK
   \<and> fst (audio_manager_init env_all_ok None sys_ready) \<noteq> ESP_ERR_INVALID_ARG
   \<and> initialized (s_ctx (snd (audio_manager_init env_all_ok None sys_ready)))"
  by (simp add: audio_manager_init_def sys_ready_initialized err_defs)

text \<open>
  Claim C8. On an initialised context the test for the initialised flag comes before the
  test of the argument: \<open>audio_manager_init\<close> returns \<open>ESP_OK\<close> and leaves the state as it
  is also for a null configuration and for a configuration without event callback, and it
  never returns \<open>ESP_ERR_INVALID_ARG\<close>.
\<close>

theorem init_initialized_skips_argument_check:
  assumes "initialized (s_ctx s)"
  shows "audio_manager_init env None s = (ESP_OK, s)
    \<and> (event_callback cfg = NULL \<longrightarrow> audio_manager_init env (Some cfg) s = (ESP_OK, s))
    \<and> fst (audio_manager_init env cfg_ptr s) \<noteq> ESP_ERR_INVALID_ARG"
  using assms by (simp add: init_initialized err_defs)

theorem init_initialized_skips_argument_check_witness:
  "initialized (s_ctx sys_ready) \<and> event_callback config_zero = NULL
   \<and> audio_manager_init env_all_ok None sys_ready = (ESP_OK, sys_ready)
   \<and> audio_manager_init env_all_ok (Some config_zero) sys_ready = (ESP_OK, sys_ready)
   \<and> fst (audio_manager_init env_all_ok (Some config_zero) sys_ready) \<noteq> ESP_ERR_INVALID_ARG"
proof -
  have z: "event_callback config_zero = NULL"
    by (simp add: config_zero_def)
  show ?thesis
    using init_initialized_skips_argument_check
        [OF sys_ready_initialized, of env_all_ok config_zero "Some config_zero"]
      sys_ready_initialized z
    by (simp add: err_defs)
qed

subsection \<open>Teardown\<close>

text \<open>
  Claim C7. In every reachable state: on an uninitialised context \<open>audio_manager_deinit\<close>
  does nothing. On an initialised one all four handles are set, and the call stops
  playback, destroys the button handler, the AFE wrapper, the playback controller and
  the I2S HAL in this order, makes no other call (none to \<open>ring_buffer_destroy\<close>), and
  leaves the zeroed context; so \<open>audio_manager_is_running\<close> and
  \<open>audio_manager_is_recording\<close> are false afterwards, and an \<open>audio_manager_init\<close> that
  follows returns what it returns in the state at start, leaves the context it leaves
  there, and makes the calls it makes there.
\<close>

theorem deinit_teardown:
  assumes "reachable s"
  shows "(\<not> initialized (s_ctx s) \<longrightarrow> audio_manager_deinit env s = s)
    \<and> (initialized (s_ctx s) \<longrightarrow>
         handles_set (s_ctx s)
         \<and> calls (audio_manager_deinit env s) = calls s @
             [Call_playback_controller_stop (playback_ctrl (s_ctx s)),
              Call_button_handler_destroy (button_handler (s_ctx s)),
              Call_afe_wrapper_destroy (afe_wrapper (s_ctx s)),
              Call_playback_controller_destroy (playback_ctrl (s_ctx s)),
              Call_i2s_hal_destroy (i2s_hal (s_ctx s))]
         \<and> s_ctx (audio_manager_deinit env s) = ctx_zero
         \<and> \<not> audio_manager_is_running (audio_manager_deinit env s)
         \<and> \<not> audio_manager_is_recording (audio_manager_deinit env s)
         \<and> fst (audio_manager_init env' cfg_ptr (audio_manager_deinit env s))
             = fst (audio_manager_init env' cfg_ptr sys_boot)
         \<and> s_ctx (snd (audio_manager_init env' cfg_ptr (audio_manager_deinit env s)))
             = s_ctx (snd (audio_manager_init env' cfg_ptr sys_boot))
         \<and> calls (snd (audio_manager_init env' cfg_ptr (audio_manager_deinit env s)))
             = calls (audio_manager_deinit env s)
               @ calls (snd (audio_manager_init env' cfg_ptr sys_boot)))"
proof (intro conjI impI)
  assume "\<not> initialized (s_ctx s)"
  then show "audio_manager_deinit env s = s"
    by (simp add: audio_manager_deinit_def)
next
  assume i: "initialized (s_ctx s)"
  with assms show h: "handles_set (s_ctx s)"
    by (simp add: reachable_handles)
  note d = deinit_wired [OF i h, of env]
  show "calls (audio_manager_deinit env s) = calls s @
             [Call_playback_controller_stop (playback_ctrl (s_ctx s)),
              Call_button_handler_destroy (button_handler (s_ctx s)),
              Call_afe_wrapper_destroy (afe_wrapper (s_ctx s)),
              Call_playback_controller_destroy (playback_ctrl (s_ctx s)),
              Call_i2s_hal_destroy (i2s_hal (s_ctx s))]"
    by (simp add: d)
  show z: "s_ctx (audio_manager_deinit env s) = ctx_zero"
    by (simp add: d)
  show "\<not> audio_manager_is_running (audio_manager_deinit env s)"
    by (simp add: audio_manager_is_running_def z ctx_zero_def)
  show "\<not> audio_manager_is_recording (audio_manager_deinit env s)"
    by (simp add: audio_manager_is_recording_def z ctx_zero_def)
  note again = init_after_zero [OF z, of env' cfg_ptr]
  from again show "fst (audio_manager_init env' cfg_ptr (audio_manager_deinit env s))
             = fst (audio_manager_init env' cfg_ptr sys_boot)"
    by (rule conjunct1)
  from again show "s_ctx (snd (audio_manager_init env' cfg_ptr (audio_manager_deinit env s)))
             = s_ctx (snd (audio_manager_init env' cfg_ptr sys_boot))"
    by simp
  from again show "calls (snd (audio_manager_init env' cfg_ptr (audio_manager_deinit env s)))
             = calls (audio_manager_deinit env s)
               @ calls (snd (audio_manager_init env' cfg_ptr sys_boot))"
    by simp
qed

text \<open>
  The theorem at the state of a successful first initialisation, and at the state at
  start for the case in which nothing is done.
\<close>

theorem deinit_teardown_witness:
  "reachable sys_ready \<and> initialized (s_ctx sys_ready)
   \<and> calls (audio_manager_deinit env_all_ok sys_ready) = calls sys_ready @
       [Call_playback_controller_stop 3,
        Call_button_handler_destroy 6,
        Call_afe_wrapper_destroy 5,
        Call_playback_controller_destroy 3,
        Call_i2s_hal_destroy 1]
   \<and> s_ctx (audio_manager_deinit env_all_ok sys_ready) = ctx_zero
   \<and> \<not> audio_manager_is_running (audio_manager_deinit env_all_ok sys_ready)
   \<and> \<not> audio_manager_is_recording (audio_manager_deinit env_all_ok sys_ready)
   \<and> fst (audio_manager_init env_all_ok (Some cfg_app) (audio_manager_deinit env_all_ok sys_ready))
       = ESP_OK
   \<and> s_ctx (snd (audio_manager_init env_all_ok (Some cfg_app)
                    (audio_manager_deinit env_all_ok sys_ready)))
       = s_ctx sys_ready
   \<and> reachable sys_boot \<and> \<not> initialized (s_ctx sys_boot)
   \<and> audio_manager_deinit env_all_ok sys_boot = sys_boot"
proof -
  have first: "audio_manager_init env_all_ok (Some cfg_app) sys_boot = (ESP_OK, sys_ready)"
    unfolding sys_ready_eq
    by (simp add: sys_boot_def audio_manager_init_def op_simps env_all_ok_def
          cfg_app_callback NULL_def ctx_zero_def)
  have f: "s_ctx sys_ready = ctx_zero\<lparr>config := cfg_app, volume := 80, i2s_hal := 1,
      playback_ctrl := 3, reference_rb := 4, afe_wrapper := 5, button_handler := 6,
      initialized := True\<rparr>"
    by (simp add: sys_ready_eq)
  show ?thesis
    using deinit_teardown [OF sys_ready_reachable, of env_all_ok env_all_ok "Some cfg_app"]
      deinit_teardown [OF reachable.boot, of env_all_ok env_all_ok "Some cfg_app"]
      sys_ready_reachable reachable.boot sys_ready_initialized sys_boot_uninitialized
    by (simp add: first f)
qed

subsection \<open>Listening and playback\<close>

text \<open>
  Claim C2, as amended. \<open>audio_manager_stop\<close> returns \<open>ESP_OK\<close> in every state, the
  initialised ones included. When
  \<open>running\<close> is set it clears \<open>running\<close> and \<open>recording\<close> and changes nothing else; when
  \<open>running\<close> is clear it changes nothing, so a set \<open>recording\<close> flag stays set. A second
  call right after the first changes nothing and returns \<open>ESP_OK\<close>.
\<close>

theorem stop_clears_flags_when_running:
  "(running (s_ctx s) \<longrightarrow>
      audio_manager_stop s =
        (ESP_OK, s\<lparr>s_ctx := (s_ctx s)\<lparr>running := False, recording := False\<rparr>\<rparr>))
   \<and> (\<not> running (s_ctx s) \<longrightarrow> audio_manager_stop s = (ESP_OK, s))
   \<and> audio_manager_stop (snd (audio_manager_stop s)) = (ESP_OK, snd (audio_manager_stop s))"
  by (simp add: audio_manager_stop_def op_simps)

theorem stop_clears_flags_when_running_witness:
  "running (s_ctx sys_listening) \<and> recording (s_ctx sys_listening)
   \<and> fst (audio_manager_stop sys_listening) = ESP_OK
   \<and> \<not> running (s_ctx (snd (audio_manager_stop sys_listening)))
   \<and> \<not> recording (s_ctx (snd (audio_manager_stop sys_listening)))
   \<and> \<not> running (s_ctx sys_recording_only)
   \<and> audio_manager_stop sys_recording_only = (ESP_OK, sys_recording_only)"
proof -
  have l: "running (s_ctx sys_listening)" "recording (s_ctx sys_listening)"
    by (simp_all add: sys_listening_eq)
  have r: "\<not> running (s_ctx sys_recording_only)"
    by (simp add: sys_recording_only_eq sys_ready_eq ctx_zero_def)
  show ?thesis
    using stop_clears_flags_when_running [of sys_listening]
      stop_clears_flags_when_running [of sys_recording_only] l r
    by simp
qed

text \<open>
  Against C2 as stated: after initialisation and \<open>audio_manager_start_recording\<close> alone,
  the context is initialised, \<open>running\<close> is clear and \<open>recording\<close> is set;
  \<open>audio_manager_stop\<close> returns \<open>ESP_OK\<close> and \<open>recording\<close> is still set.
\<close>

theorem stop_clears_flags_counterexample:
  "reachable sys_recording_only
   \<and> initialized (s_ctx sys_recording_only)
   \<and> \<not> running (s_ctx sys_recording_only)
   \<and> recording (s_ctx sys_recording_only)
   \<and> fst (audio_manager_stop sys_recording_only) = ESP_OK
   \<and> recording (s_ctx (snd (audio_manager_stop sys_recording_only)))"
  by (simp add: sys_recording_only_reachable)
     (simp add: audio_manager_stop_def sys_recording_only_eq sys_ready_eq ctx_zero_def)



text \<open>
  Claim C9, at the input where the code departs from it. \<open>audio_manager_is_playing\<close> has
  no test of the initialised flag and passes the stored playback-controller handle on.
  At start, and after a teardown, the context is uninitialised and that handle is null,
  as the claim says. After a first initialisation in which the AFE wrapper could not be
  created the context is uninitialised too, but the failure branch has destroyed playback
  controller 3 without clearing its handle, and \<open>audio_manager_is_playing\<close> passes the
  handle of the destroyed controller on. Starting, stopping and clearing playback make no
  call in that state.
\<close>

theorem is_playing_stale_handle_after_failed_init:
  "fst (audio_manager_init env_fail_afe (Some cfg_app) sys_boot) = ESP_ERR_NO_MEM
   \<and> snd (audio_manager_init env_fail_afe (Some cfg_app) sys_boot) = sys_afe_failed
   \<and> \<not> initialized (s_ctx sys_afe_failed)
   \<and> Call_playback_controller_destroy 3 \<in> set (calls sys_afe_failed)
   \<and> audio_manager_is_playing env_all_ok sys_afe_failed =
       (playback_controller_is_running env_all_ok 3,
        sys_afe_failed\<lparr>calls := calls sys_afe_failed @ [Call_playback_controller_is_running 3]\<rparr>)
   \<and> (3::nat) \<noteq> NULL
   \<and> audio_manager_start_playback env_all_ok sys_afe_failed
       = (ESP_ERR_INVALID_STATE, sys_afe_failed)
   \<and> audio_manager_stop_playback env_all_ok sys_afe_failed = (ESP_OK, sys_afe_failed)
   \<and> audio_manager_clear_playback_buffer env_all_ok sys_afe_failed
       = (ESP_ERR_INVALID_STATE, sys_afe_failed)
   \<and> \<not> initialized (s_ctx sys_boot)
   \<and> audio_manager_is_playing env_all_ok sys_boot =
       (playback_controller_is_running env_all_ok NULL,
        sys_boot\<lparr>calls := calls sys_boot @ [Call_playback_controller_is_running NULL]\<rparr>)
   \<and> \<not> initialized (s_ctx (audio_manager_deinit env_all_ok sys_ready))
   \<and> playback_ctrl (s_ctx (audio_manager_deinit env_all_ok sys_ready)) = NULL"
proof -
  have r: "fst (audio_manager_init env_fail_afe (Some cfg_app) sys_boot) = ESP_ERR_NO_MEM"
    by (simp add: sys_boot_def audio_manager_init_def op_simps env_fail_afe_def env_all_ok_def
          cfg_app_callback NULL_def ctx_zero_def)
  have u: "\<not> initialized (s_ctx sys_afe_failed)" "playback_ctrl (s_ctx sys_afe_failed) = 3"
    by (simp_all add: sys_afe_failed_eq ctx_zero_def)
  have d: "Call_playback_controller_destroy 3 \<in> set (calls sys_afe_failed)"
    by (simp add: sys_afe_failed_eq)
  have b: "playback_ctrl (s_ctx sys_boot) = NULL"
    by (simp add: sys_boot_def ctx_zero_def)
  have h: "handles_set (s_ctx sys_ready)"
    by (simp add: sys_ready_eq handles_set_def NULL_def)
  have z: "s_ctx (audio_manager_deinit env_all_ok sys_ready) = ctx_zero"
    by (simp add: deinit_wired [OF sys_ready_initialized h])
  have guarded:
    "audio_manager_start_playback env_all_ok sys_afe_failed
       = (ESP_ERR_INVALID_STATE, sys_afe_failed)"
    "audio_manager_stop_playback env_all_ok sys_afe_failed = (ESP_OK, sys_afe_failed)"
    "audio_manager_clear_playback_buffer env_all_ok sys_afe_failed
       = (ESP_ERR_INVALID_STATE, sys_afe_failed)"
    using u(1)
    by (simp_all add: audio_manager_start_playback_def audio_manager_stop_playback_def
          audio_manager_clear_playback_buffer_def)
  show ?thesis
    using r u d guarded sys_boot_uninitialized
    by (simp add: audio_manager_is_playing_def op_simps b z sys_afe_failed_def [symmetric])
       (simp add: NULL_def ctx_zero_def)
qed

subsection \<open>Events and wake-word configuration\<close>

text \<open>
  Claim C6. For a wake-word detection of the front end, \<open>afe_event_handler\<close> calls the
  registered event callback once, with the type \<open>AUDIO_MGR_EVENT_WAKEUP_DETECTED\<close>, the
  word index and the volume of the detection, and the stored user context; it changes
  nothing else. When no event callback is registered it does nothing.
\<close>

theorem wakeup_event_relayed:
  assumes "afe_ev_type event = AFE_EVENT_WAKEUP_DETECTED"
  shows "(event_callback (config (s_ctx s)) \<noteq> NULL \<longrightarrow>
      afe_event_handler event s =
        s\<lparr>calls := calls s @
            [Call_event_callback (event_callback (config (s_ctx s)))
               \<lparr>mgr_ev_type = AUDIO_MGR_EVENT_WAKEUP_DETECTED,
                mgr_ev_wakeup = \<lparr>wake_word_index = wake_word_index (afe_ev_wakeup event),
                              volume_db = volume_db (afe_ev_wakeup event)\<rparr>\<rparr>
               (user_ctx (config (s_ctx s)))]\<rparr>)
    \<and> (event_callback (config (s_ctx s)) = NULL \<longrightarrow> afe_event_handler event s = s)"
  using assms by (simp add: afe_event_handler_def op_simps)

text \<open>
  The theorem at the detection of word 2 at -12 dB: relayed on the initialised context,
  dropped at start, where no callback is registered.
\<close>

theorem wakeup_event_relayed_witness:
  "afe_ev_type wake_event = AFE_EVENT_WAKEUP_DETECTED
   \<and> event_callback (config (s_ctx sys_ready)) \<noteq> NULL
   \<and> afe_event_handler wake_event sys_ready =
       sys_ready\<lparr>calls := calls sys_ready @
         [Call_event_callback 7
            \<lparr>mgr_ev_type = AUDIO_MGR_EVENT_WAKEUP_DETECTED,
             mgr_ev_wakeup = \<lparr>wake_word_index = 2, volume_db = - 12\<rparr>\<rparr> 9]\<rparr>
   \<and> event_callback (config (s_ctx sys_boot)) = NULL
   \<and> afe_event_handler wake_event sys_boot = sys_boot"
proof -
  have t: "afe_ev_type wake_event = AFE_EVENT_WAKEUP_DETECTED"
    by (simp add: wake_event_def)
  have c: "event_callback (config (s_ctx sys_ready)) = 7" "user_ctx (config (s_ctx sys_ready)) = 9"
    by (simp_all add: sys_ready_eq cfg_app_callback)
  have b: "event_callback (config (s_ctx sys_boot)) = NULL"
    by (simp add: sys_boot_def ctx_zero_def config_zero_def)
  show ?thesis
    using wakeup_event_relayed [OF t, of sys_ready] wakeup_event_relayed [OF t, of sys_boot] t b
    by (simp add: c NULL_def wake_event_def)
qed

text \<open>
  Claim C10. On an initialised context and with a configuration given,
  \<open>audio_manager_update_wakeup_config\<close> stores the new wake-word configuration, calls
  \<open>afe_wrapper_update_wakeup_config\<close> once and returns what that call returns. Whatever it
  returns, a failure included, the stored configuration is the new one afterwards, and
  \<open>audio_manager_get_wakeup_config\<close> delivers it.
\<close>

theorem update_wakeup_config_not_atomic:
  assumes "initialized (s_ctx s)"
    and "s' = snd (audio_manager_update_wakeup_config env (Some w) s)"
  shows "fst (audio_manager_update_wakeup_config env (Some w) s)
      = afe_wrapper_update_wakeup_config env (afe_wrapper (s_ctx s)) (afe_wakeup w)
    \<and> calls s' = calls s @
        [Call_afe_wrapper_update_wakeup_config (afe_wrapper (s_ctx s)) (afe_wakeup w)]
    \<and> wakeup_config (config (s_ctx s')) = w
    \<and> audio_manager_get_wakeup_config (Some out) s' = (ESP_OK, Some w)"
  using assms
  by (simp add: audio_manager_update_wakeup_config_def audio_manager_get_wakeup_config_def
        op_simps)

text \<open>
  The theorem on the initialised context with an AFE wrapper that refuses the update: the
  call fails, and the stored configuration is the new one, no longer the application's.
\<close>

theorem update_wakeup_config_not_atomic_witness:
  "initialized (s_ctx sys_ready)
   \<and> wakeup_config (config (s_ctx sys_ready)) \<noteq> wakeup_other
   \<and> fst (audio_manager_update_wakeup_config env_update_fails (Some wakeup_other) sys_ready)
       = ESP_ERR_NO_MEM
   \<and> ESP_ERR_NO_MEM \<noteq> ESP_OK
   \<and> wakeup_config (config (s_ctx
        (snd (audio_manager_update_wakeup_config env_update_fails (Some wakeup_other) sys_ready))))
       = wakeup_other
   \<and> audio_manager_get_wakeup_config (Some (wakeup_config cfg_app))
        (snd (audio_manager_update_wakeup_config env_update_fails (Some wakeup_other) sys_ready))
       = (ESP_OK, Some wakeup_other)"
proof -
  have old: "wakeup_config (config (s_ctx sys_ready)) \<noteq> wakeup_other"
    by (simp add: sys_ready_eq cfg_app_def audio_config_app_build_def wakeup_other_def)
  have f: "afe_wrapper_update_wakeup_config env_update_fails h a = ESP_ERR_NO_MEM" for h a
    by (simp add: env_update_fails_def env_all_ok_def)
  show ?thesis
    using update_wakeup_config_not_atomic [OF sys_ready_initialized refl,
        of env_update_fails wakeup_other "wakeup_config cfg_app"]
      sys_ready_initialized old
    by (simp add: f err_defs)
qed

end
